theory Spec2Isabelle
  imports Complex_Main
begin

section \<open>JavaScript numbers\<close>

text \<open>
  A JavaScript number is an IEEE 754 double: a finite value, which is a rational, one
  of the two infinities, or \<open>NaN\<close>. The sign of zero is not modelled; nothing in the
  programs observes it. Every arithmetic operation gives the double nearest to the
  exact result, ties going to the even significand; \<open>fl\<close> is that rounding. A
  positive rational \<open>x\<close> has the binary exponent \<open>e\<close> with \<open>2^e \<le> x < 2^(e+1)\<close>
  (at least \<open>-1022\<close>, where the subnormal range begins), the doubles near it are the
  multiples of \<open>2^(e-52)\<close>, and a rounded value above the largest double is infinite.
\<close>

datatype double = Finite rat | PosInfinity | NegInfinity | NaN

definition pow2 :: "int \<Rightarrow> rat" where
  "pow2 e = (if 0 \<le> e then 2 ^ nat e else 1 / 2 ^ nat (- e))"

function bits :: "int \<Rightarrow> int" where
  "bits n = (if n \<le> 0 then 0 else 1 + bits (n div 2))"
  by pat_completeness auto
termination
  by (relation "measure nat") auto

declare bits.simps [simp del]

definition exponent :: "rat \<Rightarrow> int" where
  "exponent x =
     (if 1 \<le> x then bits \<lfloor>x\<rfloor> - 1
      else - bits (\<lceil>1 / x\<rceil> - 1))"

definition round_half_even :: "rat \<Rightarrow> int" where
  "round_half_even q =
     (let f = \<lfloor>q\<rfloor>; d = q - of_int f
      in if d < 1 / 2 then f else if 1 / 2 < d then f + 1 else if even f then f else f + 1)"

definition round_pos :: "rat \<Rightarrow> rat" where
  "round_pos x =
     (let e = max (exponent x) (- 1022); ulp = pow2 (e - 52)
      in of_int (round_half_even (x / ulp)) * ulp)"

definition max_double :: rat where
  "max_double = (2 ^ 53 - 1) * 2 ^ 971"

definition fl :: "rat \<Rightarrow> double" where
  "fl x =
     (if x = 0 then Finite 0
      else if 0 < x then (if max_double < round_pos x then PosInfinity else Finite (round_pos x))
      else (if max_double < round_pos (- x) then NegInfinity else Finite (- round_pos (- x))))"

text \<open>
  Negation, the operators \<open>/\<close>, \<open>*\<close>, \<open>+\<close> and \<open><\<close>, and truthiness (\<open>0\<close> and \<open>NaN\<close>
  are falsy). A zero divisor is taken as \<open>+0\<close>; no divisor of the programs is zero.
\<close>

definition dneg :: "double \<Rightarrow> double" where
  "dneg x = (case x of Finite r \<Rightarrow> Finite (- r) | PosInfinity \<Rightarrow> NegInfinity
             | NegInfinity \<Rightarrow> PosInfinity | NaN \<Rightarrow> NaN)"

definition signed_infinity :: "rat \<Rightarrow> double" where
  "signed_infinity r = (if 0 < r then PosInfinity else if r < 0 then NegInfinity else NaN)"

fun double_div :: "double \<Rightarrow> double \<Rightarrow> double" where
  "double_div NaN y = NaN"
| "double_div x NaN = NaN"
| "double_div (Finite x) (Finite y) = (if y = 0 then signed_infinity x else fl (x / y))"
| "double_div (Finite x) y = Finite 0"
| "double_div x (Finite y) =
     (if 0 \<le> y then x else dneg x)"
| "double_div x y = NaN"

fun double_mul :: "double \<Rightarrow> double \<Rightarrow> double" where
  "double_mul NaN y = NaN"
| "double_mul x NaN = NaN"
| "double_mul (Finite x) (Finite y) = fl (x * y)"
| "double_mul (Finite x) PosInfinity = signed_infinity x"
| "double_mul (Finite x) NegInfinity = signed_infinity (- x)"
| "double_mul PosInfinity (Finite y) = signed_infinity y"
| "double_mul NegInfinity (Finite y) = signed_infinity (- y)"
| "double_mul x y = (if x = y then PosInfinity else NegInfinity)"

fun double_add :: "double \<Rightarrow> double \<Rightarrow> double" where
  "double_add NaN y = NaN"
| "double_add x NaN = NaN"
| "double_add (Finite x) (Finite y) = fl (x + y)"
| "double_add (Finite x) y = y"
| "double_add x (Finite y) = x"
| "double_add x y = (if x = y then x else NaN)"

fun double_less :: "double \<Rightarrow> double \<Rightarrow> bool" where
  "double_less NaN y = False"
| "double_less x NaN = False"
| "double_less (Finite x) (Finite y) = (x < y)"
| "double_less x NegInfinity = False"
| "double_less PosInfinity y = False"
| "double_less x y = True"

fun double_truthy :: "double \<Rightarrow> bool" where
  "double_truthy (Finite r) = (r \<noteq> 0)"
| "double_truthy NaN = False"
| "double_truthy x = True"

text \<open>
  \<open>Number(b)\<close> of a \<open>BigInt\<close> is the double nearest to it. \<open>Number(x.toFixed(4))\<close>:
  \<open>toFixed\<close> writes the integer nearest to \<open>|x| * 10^4\<close> (the larger one of two) with
  four decimals and the sign of \<open>x\<close>, and \<open>Number\<close> reads that decimal back; from
  \<open>10^21\<close> on, and for the infinities and \<open>NaN\<close>, \<open>toFixed\<close> writes the number as
  \<open>String\<close> does and \<open>Number\<close> reads the same double back.
\<close>

definition Number_of_BigInt :: "int \<Rightarrow> double" where
  "Number_of_BigInt n = fl (of_int n)"

definition toFixed4 :: "double \<Rightarrow> double" where
  "toFixed4 x =
     (case x of
        Finite r \<Rightarrow>
          if 10 ^ 21 \<le> \<bar>r\<bar> then Finite r
          else fl (sgn r * of_int \<lfloor>\<bar>r\<bar> * 10000 + 1 / 2\<rfloor> / 10000)
      | PosInfinity \<Rightarrow> PosInfinity
      | NegInfinity \<Rightarrow> NegInfinity
      | NaN \<Rightarrow> NaN)"

section \<open>Share computation with \<open>BigInt\<close>: \<open>percentBigInt\<close>\<close>

text \<open>
  The webhook scanner computes holder shares on raw base-unit balances with JavaScript
  \<open>BigInt\<close> values:
  \<^verbatim>\<open>
  function percentBigInt(numer, denom) {
    try {
      const n = BigInt(numer || '0');
      const d = BigInt(denom || '0');
      if (d === 0n) return 0;
      const scaled = (n * 10000n) / d; // percent * 100
      return Number(scaled) / 100; // e.g., 1234 -> 12.34
    } catch (err) { return 0; }
  }
  \<close>
  Every call site passes \<open>BigInt\<close> values, for which \<open>BigInt(x || '0')\<close> is \<open>x\<close> (the
  only falsy \<open>BigInt\<close> is \<open>0n\<close>, and \<open>BigInt('0')\<close> is \<open>0n\<close> again) and nothing throws.
  A \<open>BigInt\<close> is an \<open>int\<close>. \<open>BigInt\<close> division truncates towards zero, unlike \<open>div\<close> on
  \<open>int\<close>, which floors; \<open>bigint_div\<close> writes the truncation out. The result is the
  double \<open>Number(scaled) / 100\<close>.
\<close>

definition bigint_div :: "int \<Rightarrow> int \<Rightarrow> int" where
  "bigint_div n d = sgn n * sgn d * (\<bar>n\<bar> div \<bar>d\<bar>)"

definition percentBigInt_scaled :: "int \<Rightarrow> int \<Rightarrow> int" where
  "percentBigInt_scaled n d = bigint_div (n * 10000) d"

definition percentBigInt :: "int \<Rightarrow> int \<Rightarrow> double" where
  "percentBigInt n d =
     (if d = 0 then Finite 0
      else double_div (Number_of_BigInt (percentBigInt_scaled n d)) (Finite 100))"

text \<open>
  The specification's \<open>sharePercent\<close>, written from its words: absent when the total is
  not positive, otherwise \<open>floor(amount * 10000 / total) / 100\<close>.
\<close>

definition sharePercent_spec :: "int \<Rightarrow> int \<Rightarrow> rat option" where
  "sharePercent_spec amount tot =
     (if tot \<le> 0 then None
      else Some (of_int \<lfloor>(of_int amount * 10000 / of_int tot :: rat)\<rfloor> / 100))"

section \<open>JavaScript values\<close>

text \<open>
  A metric field of a feed token is a JSON number, \<open>null\<close>, or missing
  (\<open>undefined\<close>). A finite JavaScript number is a rational, and comparing two of them
  compares the rationals. \<open>ToNumber\<close> is the coercion the relational operators apply
  (\<open>None\<close> stands for \<open>NaN\<close>, against which every comparison is false); \<open>truthy\<close> is
  what \<open>if (x)\<close>, \<open>!x\<close>, \<open>&&\<close> and \<open>||\<close> test; \<open>nullish\<close> is the operator \<open>??\<close>.
\<close>

datatype jsval = Undefined | Null | Num rat

fun ToNumber :: "jsval \<Rightarrow> rat option" where
  "ToNumber Undefined = None"
| "ToNumber Null = Some 0"
| "ToNumber (Num r) = Some r"

definition js_lt :: "jsval \<Rightarrow> rat \<Rightarrow> bool" where
  "js_lt x c = (case ToNumber x of None \<Rightarrow> False | Some r \<Rightarrow> r < c)"

definition js_gt :: "jsval \<Rightarrow> rat \<Rightarrow> bool" where
  "js_gt x c = (case ToNumber x of None \<Rightarrow> False | Some r \<Rightarrow> r > c)"

definition js_le :: "jsval \<Rightarrow> rat \<Rightarrow> bool" where
  "js_le x c = (case ToNumber x of None \<Rightarrow> False | Some r \<Rightarrow> r \<le> c)"

fun truthy :: "jsval \<Rightarrow> bool" where
  "truthy Undefined = False"
| "truthy Null = False"
| "truthy (Num r) = (r \<noteq> 0)"

fun nullish :: "jsval \<Rightarrow> jsval \<Rightarrow> jsval" where
  "nullish Undefined b = b"
| "nullish Null b = b"
| "nullish (Num r) b = Num r"

text \<open>After \<open>x ?? null\<close> a metric is a number or \<open>null\<close>: an optional rational.\<close>

fun or_null :: "jsval \<Rightarrow> rat option" where
  "or_null Undefined = None"
| "or_null Null = None"
| "or_null (Num r) = Some r"

text \<open>
  An optional string field: \<open>None\<close> is \<open>undefined\<close>. The empty string is falsy, so
  \<open>a || b\<close> is \<open>b\<close> when \<open>a\<close> is missing or empty.
\<close>

definition truthy_str :: "string option \<Rightarrow> bool" where
  "truthy_str a = (case a of None \<Rightarrow> False | Some s \<Rightarrow> s \<noteq> [])"

definition or_str :: "string option \<Rightarrow> string option \<Rightarrow> string option" where
  "or_str a b = (if truthy_str a then a else b)"

definition or_default :: "string option \<Rightarrow> string \<Rightarrow> string" where
  "or_default a d = (case a of None \<Rightarrow> d | Some s \<Rightarrow> if s = [] then d else s)"

text \<open>\<open>toLowerCase\<close> on ASCII text (addresses and chain names).\<close>

definition toLowerCase :: "string \<Rightarrow> string" where
  "toLowerCase =
     map (\<lambda>c. case map_of (zip ''ABCDEFGHIJKLMNOPQRSTUVWXYZ'' ''abcdefghijklmnopqrstuvwxyz'') c of
                 Some l \<Rightarrow> l | None \<Rightarrow> c)"

text \<open>
  \<open>BigInt(s)\<close> on a string of ASCII characters. White space at both ends is dropped;
  what is left is empty (the value is \<open>0n\<close>), or a run of decimal digits with an
  optional sign, or an unsigned run of digits of radix 16, 8 or 2 after the prefix
  \<open>0x\<close>, \<open>0o\<close> or \<open>0b\<close> (in either case of the letter); anything else raises a
  \<open>SyntaxError\<close> (\<open>None\<close>).
\<close>

definition is_space :: "char \<Rightarrow> bool" where
  "is_space c = (c \<in> set [CHR 0x09, CHR 0x0A, CHR 0x0B, CHR 0x0C, CHR 0x0D, CHR 0x20])"

definition trim :: "string \<Rightarrow> string" where
  "trim s = rev (dropWhile is_space (rev (dropWhile is_space s)))"

definition is_digit :: "char \<Rightarrow> bool" where
  "is_digit c = (c \<in> set ''0123456789'')"

definition digit_val :: "char \<Rightarrow> int" where
  "digit_val c =
     (case map_of (zip ''0123456789'' [0, 1, 2, 3, 4, 5, 6, 7, 8, 9]) c of
        Some d \<Rightarrow> d | None \<Rightarrow> 0)"

definition digits_val :: "string \<Rightarrow> int" where
  "digits_val s = foldl (\<lambda>acc c. acc * 10 + digit_val c) 0 s"

definition BigInt_of_digits :: "string \<Rightarrow> int option" where
  "BigInt_of_digits s = (if s \<noteq> [] \<and> list_all is_digit s then Some (digits_val s) else None)"

definition radix_digit :: "char \<Rightarrow> int option" where
  "radix_digit c =
     map_of (zip ''0123456789abcdefABCDEF''
               [0, 1, 2, 3, 4, 5, 6, 7, 8, 9, 10, 11, 12, 13, 14, 15, 10, 11, 12, 13, 14, 15]) c"

definition radix_of :: "char \<Rightarrow> int option" where
  "radix_of c = map_of (zip ''xXoObB'' [16, 16, 8, 8, 2, 2]) c"

definition BigInt_of_radix :: "int \<Rightarrow> string \<Rightarrow> int option" where
  "BigInt_of_radix b s =
     (if s \<noteq> [] \<and> list_all (\<lambda>c. case radix_digit c of None \<Rightarrow> False | Some d \<Rightarrow> d < b) s
      then Some (foldl (\<lambda>acc c. acc * b + (case radix_digit c of None \<Rightarrow> 0 | Some d \<Rightarrow> d)) 0 s)
      else None)"

fun BigInt_of_trimmed :: "string \<Rightarrow> int option" where
  "BigInt_of_trimmed [] = Some 0"
| "BigInt_of_trimmed (c # r) =
     (if c = CHR ''-'' then map_option uminus (BigInt_of_digits r)
      else if c = CHR ''+'' then BigInt_of_digits r
      else (case r of
              [] \<Rightarrow> BigInt_of_digits [c]
            | x # ds \<Rightarrow>
                (case (if c = CHR ''0'' then radix_of x else None) of
                   Some b \<Rightarrow> BigInt_of_radix b ds
                 | None \<Rightarrow> BigInt_of_digits (c # r))))"

definition BigInt_of_string :: "string \<Rightarrow> int option" where
  "BigInt_of_string s = BigInt_of_trimmed (trim s)"

text \<open>The outcome of an HTTP post to Telegram: it returns or it throws.\<close>

datatype post_result = PostOk | PostThrew

section \<open>The feed poller with fixed thresholds\<close>

text \<open>
  The first program of the repository polls the feed and filters each token inline:
  \<^verbatim>\<open>
  for (const token of tokens) {
    const key = `seen:${token.address}`;
    const seen = await redis.get(key);
    if (seen) continue;
    await redis.set(key, 1, { ex: 3600 });
    if (token.marketcap < 15000) continue;
    if (token.holders < 30) continue;
    if (token.top10_holders_pct > 20) continue;
    if (token.dev_hold_pct > 3) continue;
    if (!token.volume_24h || token.volume_24h <= 0) continue;
    ... await sendTelegramMessage(msg);
  }
  \<close>
  \<open>feed_address\<close> is the text that the template puts after \<open>seen:\<close>.
\<close>

record feed_token =
  feed_address :: string
  feed_marketcap :: jsval
  feed_holders :: jsval
  feed_top10_holders_pct :: jsval
  feed_dev_hold_pct :: jsval
  feed_volume_24h :: jsval

definition passes_filters :: "feed_token \<Rightarrow> bool" where
  "passes_filters token =
     (if js_lt (feed_marketcap token) 15000 then False
      else if js_lt (feed_holders token) 30 then False
      else if js_gt (feed_top10_holders_pct token) 20 then False
      else if js_gt (feed_dev_hold_pct token) 3 then False
      else if \<not> truthy (feed_volume_24h token) \<or> js_le (feed_volume_24h token) 0 then False
      else True)"

text \<open>
  The ledger \<open>redis\<close> is the Upstash client when its URL and token are configured, and
  otherwise the in-memory object of the source, a set of keys (\<open>get\<close> answers \<open>1\<close> or
  \<open>null\<close>, \<open>set\<close> adds the key and ignores the expiry). In Upstash a key is stored
  with the instant at which it expires, 3600 seconds after the \<open>set\<close>, and \<open>get\<close>
  answers the stored \<open>1\<close> before that instant and \<open>null\<close> from it on; a request to
  Upstash can throw. The world of one run of the loop tells, for the token at each
  position of the batch, whether its \<open>get\<close> and its \<open>set\<close> throw, the time in
  milliseconds at which each is served, and whether the post to Telegram throws.
\<close>

datatype seen_ledger = InMemory "string set" | Upstash "string \<rightharpoonup> int"

record poll_world =
  ledger_get_throws :: "nat \<Rightarrow> bool"
  ledger_set_throws :: "nat \<Rightarrow> bool"
  ledger_get_time :: "nat \<Rightarrow> int"
  ledger_set_time :: "nat \<Rightarrow> int"
  feed_post_throws :: "nat \<Rightarrow> bool"

definition ledger_get :: "poll_world \<Rightarrow> nat \<Rightarrow> seen_ledger \<Rightarrow> string \<Rightarrow> jsval option" where
  "ledger_get w i led key =
     (case led of
        InMemory cache \<Rightarrow> Some (if key \<in> cache then Num 1 else Null)
      | Upstash entries \<Rightarrow>
          if ledger_get_throws w i then None
          else Some (case entries key of
                       None \<Rightarrow> Null
                     | Some expiry \<Rightarrow> if ledger_get_time w i < expiry then Num 1 else Null))"

definition ledger_set :: "poll_world \<Rightarrow> nat \<Rightarrow> seen_ledger \<Rightarrow> string \<Rightarrow> seen_ledger option" where
  "ledger_set w i led key =
     (case led of
        InMemory cache \<Rightarrow> Some (InMemory (insert key cache))
      | Upstash entries \<Rightarrow>
          if ledger_set_throws w i then None
          else Some (Upstash (entries(key \<mapsto> ledger_set_time w i + 3600 * 1000))))"

text \<open>
  What happens to one token: it is skipped as seen, rejected by the filter, or handed
  to \<open>sendTelegramMessage\<close>, which logs a failed post and returns all the same
  (\<open>dispatched\<close> lists the tokens handed to it); or a ledger request throws, which
  leaves the loop for the outer \<open>catch\<close>: this token and all later ones of the batch
  are not processed.
\<close>

datatype poll_outcome = Seen | Filtered | Dispatched | Aborted

record poll_state =
  seen :: seen_ledger
  dispatched :: "feed_token list"
  poll_log :: "string list"

definition poll_failed :: "poll_state \<Rightarrow> poll_state" where
  "poll_failed st = st\<lparr>poll_log := poll_log st @ [''[ERROR] pollOnce failed'']\<rparr>"

definition feed_sendTelegramMessage :: "poll_world \<Rightarrow> nat \<Rightarrow> poll_state \<Rightarrow> feed_token \<Rightarrow> poll_state" where
  "feed_sendTelegramMessage w i st token =
     (let st1 = st\<lparr>dispatched := dispatched st @ [token]\<rparr> in
      if feed_post_throws w i
      then st1\<lparr>poll_log := poll_log st1 @ [''[ERROR] Telegram send failed'']\<rparr>
      else st1)"

definition poll_token :: "poll_world \<Rightarrow> nat \<Rightarrow> poll_state \<Rightarrow> feed_token \<Rightarrow> poll_outcome \<times> poll_state" where
  "poll_token w i st token =
     (let key = ''seen:'' @ feed_address token in
      case ledger_get w i (seen st) key of
        None \<Rightarrow> (Aborted, poll_failed st)
      | Some v \<Rightarrow>
          if truthy v then (Seen, st)
          else
            (case ledger_set w i (seen st) key of
               None \<Rightarrow> (Aborted, poll_failed st)
             | Some led \<Rightarrow>
                 let st1 = st\<lparr>seen := led\<rparr> in
                 if passes_filters token then (Dispatched, feed_sendTelegramMessage w i st1 token)
                 else (Filtered, st1)))"

fun pollOnce_from ::
  "poll_world \<Rightarrow> nat \<Rightarrow> poll_state \<Rightarrow> feed_token list \<Rightarrow> poll_outcome list \<times> poll_state" where
  "pollOnce_from w i st [] = ([], st)"
| "pollOnce_from w i st (token # tokens) =
     (case poll_token w i st token of (out, st1) \<Rightarrow>
        if out = Aborted then (replicate (Suc (length tokens)) Aborted, st1)
        else (case pollOnce_from w (Suc i) st1 tokens of (outs, st2) \<Rightarrow> (out # outs, st2)))"

definition pollOnce :: "poll_world \<Rightarrow> poll_state \<Rightarrow> feed_token list \<Rightarrow> poll_outcome list \<times> poll_state" where
  "pollOnce w st tokens = pollOnce_from w 0 st tokens"

section \<open>The configurable poller: \<open>processToken\<close>\<close>

text \<open>
  The second program reads its thresholds from the environment, keeps the ledger in
  Upstash Redis or, when Redis is not configured, in the map \<open>inMemoryProcessed\<close>, and
  fills missing metrics from Moralis and Helius. A token carries optional identifier
  strings and metric fields under several names.
\<close>

record token =
  tok_address :: "string option"
  tok_mint :: "string option"
  tok_token :: "string option"
  tok_marketcap :: jsval
  tok_mc :: jsval
  tok_holders :: jsval
  tok_holder_count :: jsval
  tok_top10_percent :: jsval
  tok_top10 :: jsval
  tok_dev_hold :: jsval
  tok_dev_hold_percent :: jsval
  tok_creator_hold :: jsval
  tok_volume_24h :: jsval
  tok_volume :: jsval

record metrics =
  marketcap :: "rat option"
  holders :: "rat option"
  top10Percent :: "rat option"
  devPercent :: "rat option"
  volume24h :: "rat option"

text \<open>
  The configuration: an unset string variable is the empty string; \<open>redisClient\<close> says
  whether the Redis client was created; \<open>telegram_configured\<close> is
  \<open>TELEGRAM_BOT_TOKEN && TELEGRAM_CHAT_ID\<close>.
\<close>

record config =
  MORALIS_API_KEY :: string
  HELIUS_RPC_URL :: string
  MIN_MARKETCAP :: rat
  MIN_HOLDERS :: rat
  MAX_TOP10_PERCENT :: rat
  MAX_DEV_PERCENT :: rat
  DEDUPE_TTL_SEC :: nat
  telegram_configured :: bool
  redisClient :: bool

text \<open>
  What the outside world answers during one call of \<open>processToken\<close>: the clock, whether
  the Redis requests throw, the results of the Moralis lookups
  (\<open>fetchMoralisTokenHoldersCount\<close>: a number or \<open>null\<close>; \<open>fetchMoralisTokenPrice\<close>:
  \<open>null\<close> or an object whose fields \<open>marketCap\<close> and \<open>totalVolume24h\<close> are \<open>Some\<close> when
  their \<open>typeof\<close> is \<open>number\<close>), the results of the two Helius computations
  \<open>computeTop10PercentViaHelius\<close> and \<open>computeDevHoldPercent\<close> (floating-point
  percentages or \<open>null\<close>), and the outcome of the Telegram post.
\<close>

record price_data =
  pd_marketCap :: "rat option"
  pd_totalVolume24h :: "rat option"

record world =
  now :: int
  redis_get_throws :: bool
  redis_set_throws :: bool
  moralis_holders :: "rat option"
  moralis_price :: "price_data option"
  helius_top10 :: "rat option"
  helius_dev :: "rat option"
  telegram_post :: post_result

text \<open>
  A message is identified by the address and the metrics it is formatted from. The state
  holds the Redis keys with the expiry they were set with, the in-memory map from key to
  the time of writing, the messages Telegram accepted, and the console output.
\<close>

datatype message = Message string metrics

record bot_state =
  redis_store :: "string \<rightharpoonup> nat"
  inMemoryProcessed :: "string \<rightharpoonup> int"
  sent :: "message list"
  logs :: "string list"

definition say :: "string \<Rightarrow> bot_state \<Rightarrow> bot_state" where
  "say line st = st\<lparr>logs := logs st @ [line]\<rparr>"

text \<open>
  \<open>markProcessed\<close>: with Redis, \<open>SET key '1' EX ttl NX\<close> answers \<open>'OK'\<close> and stores the
  key when it was not there, and answers \<open>null\<close> and changes nothing when it was; a
  thrown error is logged and gives \<open>false\<close>. Without Redis the map is tested and
  written.
\<close>

definition markProcessed :: "config \<Rightarrow> world \<Rightarrow> bot_state \<Rightarrow> string \<Rightarrow> bool \<times> bot_state" where
  "markProcessed cfg w st address =
     (let key = ''processed:'' @ address in
      if redisClient cfg then
        (if redis_set_throws w then (False, say ''[ERROR] redis set failed'' st)
         else (case redis_store st key of
                 Some v \<Rightarrow> (False, st)
               | None \<Rightarrow> (True, st\<lparr>redis_store := (redis_store st)(key \<mapsto> DEDUPE_TTL_SEC cfg)\<rparr>)))
      else
        (case inMemoryProcessed st key of
           Some t \<Rightarrow> (False, st)
         | None \<Rightarrow> (True, st\<lparr>inMemoryProcessed := (inMemoryProcessed st)(key \<mapsto> now w)\<rparr>)))"

definition wasProcessed :: "config \<Rightarrow> world \<Rightarrow> bot_state \<Rightarrow> string \<Rightarrow> bool \<times> bot_state" where
  "wasProcessed cfg w st address =
     (let key = ''processed:'' @ address in
      if redisClient cfg then
        (if redis_get_throws w then (False, say ''[ERROR] redis get failed'' st)
         else (redis_store st key \<noteq> None, st))
      else (inMemoryProcessed st key \<noteq> None, st))"

text \<open>
  The periodic sweep of the in-memory ledger removes the entries older than the
  configured time to live:
  \<^verbatim>\<open>
  const expireMs = DEDUPE_TTL_SEC * 1000;
  const now = Date.now();
  for (const [k, t] of inMemoryProcessed.entries()) {
    if (now - t > expireMs) inMemoryProcessed.delete(k);
  }
  \<close>
\<close>

definition sweep :: "config \<Rightarrow> int \<Rightarrow> bot_state \<Rightarrow> bot_state" where
  "sweep cfg now_ms st =
     (let expireMs = int (DEDUPE_TTL_SEC cfg) * 1000 in
      st\<lparr>inMemoryProcessed :=
           (\<lambda>k. case inMemoryProcessed st k of
                  None \<Rightarrow> None
                | Some t \<Rightarrow> if now_ms - t > expireMs then None else Some t)\<rparr>)"

text \<open>
  \<open>sendTelegramMessage\<close> returns the body of Telegram's answer after a post that went
  through, and \<open>null\<close> when Telegram is not configured (two lines are printed) or the
  post threw (the error is logged):
  \<^verbatim>\<open>
  if (!TELEGRAM_BOT_TOKEN || !TELEGRAM_CHAT_ID) {
    console.warn('[WARN] Telegram not configured, message suppressed.');
    console.log('Telegram message would be:\n', text);
    return null;
  }
  try { ...; const res = await axios.post(url, payload, { timeout: 10000 }); return res.data; }
  catch (e) { console.error('[ERROR] sendTelegramMessage failed', e.message); return null; }
  \<close>
\<close>

datatype send_result = ResponseData | ReturnedNull

definition sendTelegramMessage ::
  "config \<Rightarrow> world \<Rightarrow> bot_state \<Rightarrow> message \<Rightarrow> send_result \<times> bot_state" where
  "sendTelegramMessage cfg w st msg =
     (if \<not> telegram_configured cfg
      then (ReturnedNull,
            say ''Telegram message would be:''
              (say ''[WARN] Telegram not configured, message suppressed.'' st))
      else (case telegram_post w of
              PostOk \<Rightarrow> (ResponseData, st\<lparr>sent := sent st @ [msg]\<rparr>)
            | PostThrew \<Rightarrow> (ReturnedNull, say ''[ERROR] sendTelegramMessage failed'' st)))"

text \<open>
  The identifier is \<open>token.address || token.mint || token.token\<close>. The metrics are read
  with \<open>??\<close> from the token, then filled from Moralis and Helius where they are still
  \<open>null\<close> and the provider is configured (\<open>!marketcap\<close> also holds for a zero), and
  at last coerced with \<open>Number\<close>, which leaves a number as it is.
\<close>

definition canonical_address :: "token \<Rightarrow> string option" where
  "canonical_address token = or_str (or_str (tok_address token) (tok_mint token)) (tok_token token)"

definition truthy_num :: "rat option \<Rightarrow> bool" where
  "truthy_num x = (case x of None \<Rightarrow> False | Some r \<Rightarrow> r \<noteq> 0)"

definition resolve_metrics :: "config \<Rightarrow> world \<Rightarrow> token \<Rightarrow> metrics" where
  "resolve_metrics cfg w token =
     (let marketcap0 = or_null (nullish (nullish (tok_marketcap token) (tok_mc token)) Null);
          holders0 = or_null (nullish (nullish (tok_holders token) (tok_holder_count token)) Null);
          top0 = or_null (nullish (nullish (tok_top10_percent token) (tok_top10 token)) Null);
          dev0 = or_null (nullish (nullish (nullish (tok_dev_hold token) (tok_dev_hold_percent token))
                                     (tok_creator_hold token)) Null);
          volume0 = or_null (nullish (nullish (tok_volume_24h token) (tok_volume token)) Null);
          holders1 = (if holders0 = None \<and> MORALIS_API_KEY cfg \<noteq> [] then moralis_holders w
                      else holders0);
          priceData = (if (marketcap0 = None \<or> volume0 = None) \<and> MORALIS_API_KEY cfg \<noteq> []
                       then moralis_price w else None);
          marketcap1 = (case priceData of
                          None \<Rightarrow> marketcap0
                        | Some pd \<Rightarrow> if \<not> truthy_num marketcap0 \<and> pd_marketCap pd \<noteq> None
                                     then pd_marketCap pd else marketcap0);
          volume1 = (case priceData of
                       None \<Rightarrow> volume0
                     | Some pd \<Rightarrow> if \<not> truthy_num volume0 \<and> pd_totalVolume24h pd \<noteq> None
                                  then pd_totalVolume24h pd else volume0);
          top1 = (if top0 = None \<and> HELIUS_RPC_URL cfg \<noteq> []
                  then (case helius_top10 w of None \<Rightarrow> top0 | Some computed \<Rightarrow> Some computed)
                  else top0);
          dev1 = (if dev0 = None \<and> HELIUS_RPC_URL cfg \<noteq> []
                  then (case helius_dev w of None \<Rightarrow> dev0 | Some computedDev \<Rightarrow> Some computedDev)
                  else dev0)
      in \<lparr>marketcap = marketcap1, holders = holders1, top10Percent = top1, devPercent = dev1,
          volume24h = volume1\<rparr>)"

text \<open>
  \<^verbatim>\<open>
  const passed = (
    (marketcap === null ? false : marketcap >= MIN_MARKETCAP) &&
    (holders === null ? false : holders >= MIN_HOLDERS) &&
    (top10Percent === null ? false : top10Percent < MAX_TOP10_PERCENT) &&
    (devPercent === null ? false : devPercent < MAX_DEV_PERCENT) &&
    (volume24h !== null && volume24h !== undefined)
  );
  \<close>
\<close>

definition passed :: "config \<Rightarrow> metrics \<Rightarrow> bool" where
  "passed cfg m =
     ((case marketcap m of None \<Rightarrow> False | Some x \<Rightarrow> x \<ge> MIN_MARKETCAP cfg) \<and>
      (case holders m of None \<Rightarrow> False | Some x \<Rightarrow> x \<ge> MIN_HOLDERS cfg) \<and>
      (case top10Percent m of None \<Rightarrow> False | Some x \<Rightarrow> x < MAX_TOP10_PERCENT cfg) \<and>
      (case devPercent m of None \<Rightarrow> False | Some x \<Rightarrow> x < MAX_DEV_PERCENT cfg) \<and>
      volume24h m \<noteq> None)"

text \<open>
  \<open>evaluateToken\<close> is the body of \<open>processToken\<close> after the two early returns: it
  resolves the metrics, applies the filter, and then sends and marks. The results of
  \<open>await sendTelegramMessage(message)\<close> and \<open>await markProcessed(address)\<close> are not
  used.
\<close>

definition evaluateToken :: "config \<Rightarrow> world \<Rightarrow> bot_state \<Rightarrow> token \<Rightarrow> string \<Rightarrow> bot_state" where
  "evaluateToken cfg w st token address =
     (let m = resolve_metrics cfg w token;
          st1 = (if volume24h m = None
                 then say ''[INFO] skipping token because 24h volume not visible:'' st else st)
      in if passed cfg m then
           (let st2 = snd (sendTelegramMessage cfg w st1 (Message address m));
                st3 = snd (markProcessed cfg w st2 address)
            in say ''[INFO] token matched filters and was reported:'' st3)
         else
           (let st2 = (if marketcap m \<noteq> None \<and> holders m \<noteq> None
                       then snd (markProcessed cfg w st1 address) else st1)
            in say ''[INFO] token did not match filters:'' st2))"

definition processToken :: "config \<Rightarrow> world \<Rightarrow> bot_state \<Rightarrow> token \<Rightarrow> bot_state" where
  "processToken cfg w st token =
     (if \<not> truthy_str (canonical_address token) then say ''[WARN] token missing address/mint:'' st
      else
        (let address = or_default (canonical_address token) [] in
         case wasProcessed cfg w st address of
           (True, st1) \<Rightarrow> st1
         | (False, st1) \<Rightarrow> evaluateToken cfg w st1 token address))"

text \<open>
  The polling loop of this program processes the tokens of a batch in series, each in
  the world that answers during its turn:
  \<^verbatim>\<open>
  for (const token of tokens) {
    try { await processToken(token); }
    catch (e) { console.error('[ERROR] processing token failed', e.message); }
  }
  \<close>
\<close>

fun processTokens :: "config \<Rightarrow> bot_state \<Rightarrow> (world \<times> token) list \<Rightarrow> bot_state" where
  "processTokens cfg st [] = st"
| "processTokens cfg st ((w, token) # rest) = processTokens cfg (processToken cfg w st token) rest"

text \<open>
  The top-10 share that this program computes through Helius, in double arithmetic:
  \<^verbatim>\<open>
  if (!supply || supply === 0) return null;
  let sumTop = 0;
  for (let i = 0; i < Math.min(10, largestAccounts.length); i++) {
    const item = largestAccounts[i];
    const amount = (item && (Number(item.uiAmount ?? item.amount ?? item)) ) || 0;
    sumTop += amount;
  }
  const pct = (sumTop / supply) * 100;
  return Number(pct.toFixed(4));
  \<close>
  The two RPC answers are taken after their coercion to numbers: \<open>largest_amounts\<close>
  holds, for each of the largest accounts, the number that
  \<open>Number(item.uiAmount ?? item.amount ?? item)\<close> gives (\<open>NaN\<close> for an item that is
  missing or not numeric), and \<open>supply_value\<close> the number that the parse of the supply
  answer leaves in \<open>supply\<close> (\<open>None\<close> when it stays \<open>null\<close>). A request that throws
  (\<open>None\<close> for the reply) is caught: a warning is printed and the result is \<open>null\<close>.
  The function returns its result and the lines it prints.
\<close>

record helius_reply =
  largest_amounts :: "double list"
  supply_value :: "double option"

definition computeTop10PercentViaHelius :: "helius_reply option \<Rightarrow> double option \<times> string list" where
  "computeTop10PercentViaHelius reply =
     (case reply of
        None \<Rightarrow> (None, [''[WARN] computeTop10PercentViaHelius failed for''])
      | Some r \<Rightarrow>
          (case supply_value r of
             None \<Rightarrow> (None, [])
           | Some supply \<Rightarrow>
               if \<not> double_truthy supply then (None, [])
               else
                 (let sumTop = foldl (\<lambda>acc amount.
                                   double_add acc (if double_truthy amount then amount else Finite 0))
                                 (Finite 0) (take 10 (largest_amounts r));
                      pct = double_mul (double_div sumTop supply) (Finite 100)
                  in (Some (toFixed4 pct), []))))"

section \<open>The webhook scanner: \<open>processTokenEvent\<close>\<close>

text \<open>
  The third program receives events \<open>{chain, address, creator}\<close>, reads supply and
  holders from Moralis, computes the shares with \<open>percentBigInt\<close> and keeps its ledger
  in Redis under \<open>processed:<chain>:<address>\<close>. A holder has an optional address and
  an optional raw balance (a string of base units); \<open>fetchTokenHolders\<close> answers
  \<open>null\<close>, an array of holders, or an object \<open>{total, holders}\<close>;
  \<open>fetchTokenMetadata\<close> answers \<open>null\<close> or an object with an optional \<open>totalSupply\<close>
  string; \<open>fetchTokenMarketData\<close> answers an object whose fields are numbers or \<open>null\<close>.
\<close>

record token_event =
  ev_chain :: "string option"
  ev_address :: "string option"
  ev_creator :: "string option"

record holder =
  h_address :: "string option"
  h_balance :: "string option"

datatype holders_raw = HoldersArray "holder list" | HoldersObject rat "holder list"

record token_meta =
  totalSupply :: "string option"

record market_data =
  md_marketCap :: "rat option"
  md_volume24h :: "rat option"

record scanner_world =
  get_throws :: bool
  set_throws :: bool
  meta_reply :: "token_meta option"
  holders_reply :: "holders_raw option"
  market_reply :: market_data
  telegram_ready :: bool
  post_reply :: post_result

record alert =
  al_address :: string
  al_chain :: string
  al_marketCap :: "rat option"
  al_vol24h :: "rat option"
  al_holders :: rat
  al_top10 :: double
  al_dev :: double

record scanner_state =
  ledger :: "string \<rightharpoonup> nat"
  alerts :: "alert list"
  console :: "string list"

definition tell :: "string \<Rightarrow> scanner_state \<Rightarrow> scanner_state" where
  "tell line st = st\<lparr>console := console st @ [line]\<rparr>"

text \<open>\<open>try { await redis.set(key, '1', { ex }); } catch (e) {}\<close>\<close>

definition mark :: "scanner_world \<Rightarrow> string \<Rightarrow> nat \<Rightarrow> scanner_state \<Rightarrow> scanner_state" where
  "mark w key ex st = (if set_throws w then st else st\<lparr>ledger := (ledger st)(key \<mapsto> ex)\<rparr>)"

definition sendTelegramMarkdown :: "scanner_world \<Rightarrow> alert \<Rightarrow> scanner_state \<Rightarrow> scanner_state" where
  "sendTelegramMarkdown w msg st =
     (if \<not> telegram_ready w then tell ''Telegram not configured (TELEGRAM_BOT_TOKEN/TELEGRAM_CHAT_ID missing)'' st
      else (case post_reply w of
              PostOk \<Rightarrow> st\<lparr>alerts := alerts st @ [msg]\<rparr>
            | PostThrew \<Rightarrow> tell ''Failed to send Telegram message:'' st))"

text \<open>\<open>BigInt(h.balance || '0')\<close>, and the sum over a list, which throws where one does.\<close>

definition balance_BigInt :: "holder \<Rightarrow> int option" where
  "balance_BigInt h = BigInt_of_string (or_default (h_balance h) ''0'')"

fun sum_balances :: "holder list \<Rightarrow> int option" where
  "sum_balances [] = Some 0"
| "sum_balances (h # hs) =
     (case balance_BigInt h of
        None \<Rightarrow> None
      | Some b \<Rightarrow> (case sum_balances hs of None \<Rightarrow> None | Some acc \<Rightarrow> Some (b + acc)))"

text \<open>
  The total supply: \<open>0n\<close> without a supply string; else \<open>BigInt\<close> of the string, and
  when that throws, \<open>BigInt\<close> of its decimal digits (\<open>'0'\<close> if it has none).
\<close>

definition totalSupplyBig_of :: "token_meta \<Rightarrow> int" where
  "totalSupplyBig_of meta =
     (case totalSupply meta of
        None \<Rightarrow> 0
      | Some s \<Rightarrow>
          if s = [] then 0
          else (case BigInt_of_string s of
                  Some n \<Rightarrow> n
                | None \<Rightarrow> digits_val (or_default (Some (filter is_digit s)) ''0'')))"

text \<open>
  The developer share, as \<open>processTokenEvent\<close> computes it:
  \<^verbatim>\<open>
  let devPercent = 0;
  if (creator) {
    const found = holdersList.find(h => (h.address || '').toLowerCase()
                                        === (creator || '').toLowerCase());
    if (found) {
      try { const devBal = BigInt(found.balance || '0');
            devPercent = percentBigInt(devBal, totalSupplyBig); }
      catch (err) { devPercent = 0; }
    } else { devPercent = 0; }   // fetching the creator's balance: not implemented here
  } else {
    const probableDev = holdersList[0];
    if (probableDev) { try { ... percentBigInt(devBal, totalSupplyBig) } catch { devPercent = 0 } }
  }
  \<close>
\<close>

definition same_address :: "string option \<Rightarrow> holder \<Rightarrow> bool" where
  "same_address creator h =
     (toLowerCase (or_default (h_address h) []) = toLowerCase (or_default creator []))"

definition share_of :: "holder \<Rightarrow> int \<Rightarrow> double" where
  "share_of h totalSupplyBig =
     (case balance_BigInt h of
        None \<Rightarrow> Finite 0
      | Some devBal \<Rightarrow> percentBigInt devBal totalSupplyBig)"

definition devPercent_of :: "string option \<Rightarrow> holder list \<Rightarrow> int \<Rightarrow> double" where
  "devPercent_of creator holdersList totalSupplyBig =
     (if truthy_str creator then
        (case find (same_address creator) holdersList of
           Some found \<Rightarrow> share_of found totalSupplyBig
         | None \<Rightarrow> Finite 0)
      else
        (case holdersList of
           [] \<Rightarrow> Finite 0
         | probableDev # rest \<Rightarrow> share_of probableDev totalSupplyBig))"

text \<open>The holder list and the holder count taken from the answer of \<open>fetchTokenHolders\<close>.\<close>

fun holdersList_of :: "holders_raw \<Rightarrow> holder list" where
  "holdersList_of (HoldersArray hs) = hs"
| "holdersList_of (HoldersObject n hs) = take 200 hs"

fun holdersCount_of :: "holders_raw \<Rightarrow> rat" where
  "holdersCount_of (HoldersArray hs) = of_nat (length hs)"
| "holdersCount_of (HoldersObject n hs) = (if n \<noteq> 0 then n else of_nat (length hs))"

text \<open>\<open>x || null\<close> on a number or \<open>null\<close>: a zero becomes \<open>null\<close>.\<close>

definition or_null_num :: "rat option \<Rightarrow> rat option" where
  "or_null_num x = (if truthy_num x then x else None)"

text \<open>
  \<^verbatim>\<open>
  const passed = (
    (marketCap && marketCap >= minMarketCap) &&
    (holdersCount && holdersCount >= minHolders) &&
    (top10Percent < maxTop10Percent) &&
    (devPercent < maxDevPercent) &&
    (vol24h && vol24h > 0)
  );
  \<close>
  with the constants 15000, 30, 20 and 3; only the truth of \<open>passed\<close> is used.
\<close>

definition passed_event :: "rat option \<Rightarrow> rat \<Rightarrow> double \<Rightarrow> double \<Rightarrow> rat option \<Rightarrow> bool" where
  "passed_event marketCap holdersCount top10 dev vol24h =
     ((case marketCap of None \<Rightarrow> False | Some x \<Rightarrow> x \<noteq> 0 \<and> x \<ge> 15000) \<and>
      (holdersCount \<noteq> 0 \<and> holdersCount \<ge> 30) \<and>
      double_less top10 (Finite 20) \<and>
      double_less dev (Finite 3) \<and>
      (case vol24h of None \<Rightarrow> False | Some x \<Rightarrow> x \<noteq> 0 \<and> x > 0))"

text \<open>
  \<open>evaluateTokenEvent\<close> is the body of \<open>processTokenEvent\<close> after the ledger read.
  Every way out writes the key with its own expiry (20 minutes without metadata, one
  hour without holders or with a zero supply, six hours for a rejected token, 24 hours
  after the message), except an exception (a holder balance that \<open>BigInt\<close> rejects),
  which the outer \<open>catch\<close> only logs.
\<close>

definition evaluateTokenEvent ::
  "scanner_world \<Rightarrow> scanner_state \<Rightarrow> string \<Rightarrow> string \<Rightarrow> string option \<Rightarrow> scanner_state" where
  "evaluateTokenEvent w st c a creator =
     (let key = ''processed:'' @ c @ '':'' @ a in
      case meta_reply w of
        None \<Rightarrow> mark w key (60 * 20) (tell ''No metadata for'' st)
      | Some meta \<Rightarrow>
     (case holders_reply w of
        None \<Rightarrow> mark w key (60 * 60) (tell ''Holders info missing for'' st)
      | Some holdersRaw \<Rightarrow>
     (let holdersList = holdersList_of holdersRaw in
      case sum_balances (take 10 holdersList) of
        None \<Rightarrow> tell ''processTokenEvent error:'' st
      | Some topSum \<Rightarrow>
     (let totalSupplyBig = totalSupplyBig_of meta in
      if totalSupplyBig = 0
      then mark w key (60 * 60) (tell ''Total supply missing or zero for'' st)
      else
        (let top10Percent = percentBigInt topSum totalSupplyBig;
             devPercent = devPercent_of creator holdersList totalSupplyBig;
             holdersCount0 = holdersCount_of holdersRaw;
             holdersCount = (if holdersCount0 = 0 then of_nat (length holdersList)
                             else holdersCount0);
             marketCap = or_null_num (md_marketCap (market_reply w));
             vol24h = or_null_num (md_volume24h (market_reply w))
         in if \<not> passed_event marketCap holdersCount top10Percent devPercent vol24h
            then mark w key (60 * 60 * 6) (tell ''Token did not pass filters.'' st)
            else
              (let msg = \<lparr>al_address = a, al_chain = c, al_marketCap = marketCap,
                          al_vol24h = vol24h, al_holders = holdersCount,
                          al_top10 = top10Percent, al_dev = devPercent\<rparr>;
                   st1 = sendTelegramMarkdown w msg st;
                   st2 = mark w key (60 * 60 * 24) st1
               in tell ''Token passed and message sent for'' st2))))))"

definition processTokenEvent :: "scanner_world \<Rightarrow> scanner_state \<Rightarrow> token_event \<Rightarrow> scanner_state" where
  "processTokenEvent w st ev =
     (if \<not> truthy_str (ev_address ev) then st
      else
        (let a = toLowerCase (or_default (ev_address ev) []);
             c = toLowerCase (or_default (ev_chain ev) ''unknown'');
             key = ''processed:'' @ c @ '':'' @ a
         in if get_throws w
            then evaluateTokenEvent w (tell ''Redis get failed (continuing):'' st) c a (ev_creator ev)
            else if ledger st key \<noteq> None then tell ''Already processed'' st
            else evaluateTokenEvent w st c a (ev_creator ev)))"

section \<open>Sample inputs\<close>


definition empty_scanner :: scanner_state where
  "empty_scanner = \<lparr>ledger = Map.empty, alerts = [], console = []\<rparr>"



text \<open>
  The default configuration of the configurable poller (no Moralis, no Helius, in-memory
  ledger), the same with a Redis client, a feed token with an identifier and all five
  metrics within the thresholds, and the same token without any identifier.
\<close>

definition default_config :: config where
  "default_config = \<lparr>MORALIS_API_KEY = [], HELIUS_RPC_URL = [], MIN_MARKETCAP = 15000,
     MIN_HOLDERS = 30, MAX_TOP10_PERCENT = 20, MAX_DEV_PERCENT = 3, DEDUPE_TTL_SEC = 86400,
     telegram_configured = True, redisClient = False\<rparr>"

definition redis_config :: config where
  "redis_config = default_config\<lparr>redisClient := True\<rparr>"

definition good_token :: token where
  "good_token = \<lparr>tok_address = Some ''Mint1'', tok_mint = None, tok_token = None,
     tok_marketcap = Num 20000, tok_mc = Undefined, tok_holders = Num 50,
     tok_holder_count = Undefined, tok_top10_percent = Num 15, tok_top10 = Undefined,
     tok_dev_hold = Num 1, tok_dev_hold_percent = Undefined, tok_creator_hold = Undefined,
     tok_volume_24h = Num 500, tok_volume = Undefined\<rparr>"

definition nameless_token :: token where
  "nameless_token = good_token\<lparr>tok_address := None\<rparr>"

definition good_metrics :: metrics where
  "good_metrics = \<lparr>marketcap = Some 20000, holders = Some 50, top10Percent = Some 15,
     devPercent = Some 1, volume24h = Some 500\<rparr>"

definition calm_world :: world where
  "calm_world = \<lparr>now = 1700000000000, redis_get_throws = False, redis_set_throws = False,
     moralis_holders = None, moralis_price = None, helius_top10 = None, helius_dev = None,
     telegram_post = PostOk\<rparr>"

definition empty_bot :: bot_state where
  "empty_bot = \<lparr>redis_store = Map.empty, inMemoryProcessed = Map.empty, sent = [], logs = []\<rparr>"

text \<open>
  A scanner run in which every provider answers and the token passes the filter
  (supply 1000, one holder with 20 units, 50 holders in total).
\<close>

definition passing_world :: scanner_world where
  "passing_world = \<lparr>get_throws = False, set_throws = False,
     meta_reply = Some \<lparr>totalSupply = Some ''1000''\<rparr>,
     holders_reply = Some (HoldersObject 50 [\<lparr>h_address = Some ''w1'', h_balance = Some ''20''\<rparr>]),
     market_reply = \<lparr>md_marketCap = Some 20000, md_volume24h = Some 500\<rparr>,
     telegram_ready = True, post_reply = PostOk\<rparr>"

definition mint_event :: token_event where
  "mint_event = \<lparr>ev_chain = Some ''Solana'', ev_address = Some ''M1'', ev_creator = None\<rparr>"

definition passing_alert :: alert where
  "passing_alert = \<lparr>al_address = ''m1'', al_chain = ''solana'', al_marketCap = Some 20000,
     al_vol24h = Some 500, al_holders = 50, al_top10 = Finite 2, al_dev = Finite 2\<rparr>"

text \<open>States whose ledger already holds the key of the sample token.\<close>

definition marked_bot :: bot_state where
  "marked_bot = empty_bot\<lparr>redis_store := [''processed:Mint1'' \<mapsto> 86400]\<rparr>"

definition marked_scanner :: scanner_state where
  "marked_scanner = empty_scanner\<lparr>ledger := [''processed:solana:m1'' \<mapsto> 86400]\<rparr>"

section \<open>The filter of the specification\<close>

text \<open>
  The specification's \<open>FilterEvaluator\<close>, written from its words: the candidate passes
  when all five metrics are present and within their thresholds, the volume strictly
  above zero; the names of the absent metrics are collected.
\<close>

datatype metric_name = Name_marketcap | Name_holders | Name_top10Pct | Name_devPct | Name_volume24h

definition evaluate_spec :: "config \<Rightarrow> metrics \<Rightarrow> bool \<times> metric_name set" where
  "evaluate_spec thresholds m =
     ((case marketcap m of None \<Rightarrow> False | Some x \<Rightarrow> x \<ge> MIN_MARKETCAP thresholds) \<and>
      (case holders m of None \<Rightarrow> False | Some x \<Rightarrow> x \<ge> MIN_HOLDERS thresholds) \<and>
      (case top10Percent m of None \<Rightarrow> False | Some x \<Rightarrow> x < MAX_TOP10_PERCENT thresholds) \<and>
      (case devPercent m of None \<Rightarrow> False | Some x \<Rightarrow> x < MAX_DEV_PERCENT thresholds) \<and>
      (case volume24h m of None \<Rightarrow> False | Some x \<Rightarrow> x > 0),
      (if marketcap m = None then {Name_marketcap} else {}) \<union>
      (if holders m = None then {Name_holders} else {}) \<union>
      (if top10Percent m = None then {Name_top10Pct} else {}) \<union>
      (if devPercent m = None then {Name_devPct} else {}) \<union>
      (if volume24h m = None then {Name_volume24h} else {}))"

section \<open>Further sample inputs\<close>

text \<open>Metrics at the thresholds with a 24-hour volume of zero, and scenario B as a token.\<close>

definition idle_metrics :: metrics where
  "idle_metrics = \<lparr>marketcap = Some 15000, holders = Some 30, top10Percent = Some 19,
     devPercent = Some 2, volume24h = Some 0\<rparr>"

definition scenario_B :: token where
  "scenario_B = good_token\<lparr>tok_volume_24h := Num 0\<rparr>"

text \<open>
  A feed token within the thresholds but with a volume of zero; the fresh poller state
  with the in-memory ledger, and a run of the loop in which nothing throws.
\<close>

definition idle_feed_token :: feed_token where
  "idle_feed_token = \<lparr>feed_address = ''Mint1'', feed_marketcap = Num 20000, feed_holders = Num 50,
     feed_top10_holders_pct = Num 15, feed_dev_hold_pct = Num 1, feed_volume_24h = Num 0\<rparr>"

definition fresh_poll :: poll_state where
  "fresh_poll = \<lparr>seen = InMemory {}, dispatched = [], poll_log = []\<rparr>"

definition calm_poll :: poll_world where
  "calm_poll = \<lparr>ledger_get_throws = (\<lambda>i. False), ledger_set_throws = (\<lambda>i. False),
     ledger_get_time = (\<lambda>i. 1700000000000 + 2 * int i),
     ledger_set_time = (\<lambda>i. 1700000000001 + 2 * int i), feed_post_throws = (\<lambda>i. False)\<rparr>"

text \<open>The same feed token with a volume of 500: it passes the fixed thresholds.\<close>

definition busy_feed_token :: feed_token where
  "busy_feed_token = idle_feed_token\<lparr>feed_volume_24h := Num 500\<rparr>"

text \<open>
  An answer of Helius with a single largest account of 1999996 tokens out of a supply
  of ten million.
\<close>

definition near_fifth_reply :: helius_reply where
  "near_fifth_reply = \<lparr>largest_amounts = [Finite 1999996], supply_value = Some (Finite 10000000)\<rparr>"

section \<open>Properties of the rounding\<close>

text \<open>
  The exponent brackets its argument, so a rational between \<open>2^e\<close> and \<open>2^(e+1)\<close> is
  rounded on the grid of step \<open>2^(e-52)\<close> (\<open>fl_at\<close>); an integer of magnitude at most
  \<open>2^53\<close> is a double (\<open>fl_of_int_exact\<close>); rounding commutes with negation.
\<close>

lemma pow2_powi: "pow2 e = 2 powi e"
  by (simp add: pow2_def power_int_def power_inverse inverse_eq_divide power_one_over)

lemma bits_pos: "0 < n \<Longrightarrow> 0 < bits n"
proof (induction n rule: bits.induct)
  case (1 n)
  then show ?case by (subst bits.simps) (cases "0 < n div 2"; simp add: bits.simps)
qed

lemma bits_step: "0 < n \<Longrightarrow> bits n = 1 + bits (n div 2)"
  by (subst bits.simps) simp

lemma bits_lower: "0 < n \<Longrightarrow> (2::int) ^ nat (bits n - 1) \<le> n"
proof (induction n rule: bits.induct)
  case (1 n)
  show ?case
  proof (cases "n = 1")
    case True
    then show ?thesis by (simp add: bits.simps)
  next
    case False
    with "1.prems" have h: "0 < n div 2" by simp
    have ih: "(2::int) ^ nat (bits (n div 2) - 1) \<le> n div 2"
      using "1.IH" "1.prems" h by simp
    have b: "bits n = 1 + bits (n div 2)" using "1.prems" by (rule bits_step)
    have p: "0 < bits (n div 2)" using h by (rule bits_pos)
    have "(2::int) ^ nat (bits n - 1) = 2 * 2 ^ nat (bits (n div 2) - 1)"
      using b p by (simp add: nat_diff_distrib power_Suc [symmetric] Suc_nat_eq_nat_zadd1 del: power_Suc)
    also have "\<dots> \<le> 2 * (n div 2)" using ih by simp
    also have "\<dots> \<le> n" by simp
    finally show ?thesis .
  qed
qed

lemma bits_upper: "0 < n \<Longrightarrow> n < (2::int) ^ nat (bits n)"
proof (induction n rule: bits.induct)
  case (1 n)
  show ?case
  proof (cases "n = 1")
    case True
    then show ?thesis by (simp add: bits.simps)
  next
    case False
    with "1.prems" have h: "0 < n div 2" by simp
    have ih: "n div 2 < (2::int) ^ nat (bits (n div 2))"
      using "1.IH" "1.prems" h by simp
    have b: "bits n = 1 + bits (n div 2)" using "1.prems" by (rule bits_step)
    have p: "0 < bits (n div 2)" using h by (rule bits_pos)
    have e: "(2::int) ^ nat (bits n) = 2 * 2 ^ nat (bits (n div 2))"
      using b p by (simp add: nat_add_distrib)
    have "n \<le> 2 * (n div 2) + 1" by presburger
    also have "\<dots> < 2 * 2 ^ nat (bits (n div 2))" using ih by simp
    finally show ?thesis unfolding e .
  qed
qed

lemma exponent_bounds:
  assumes "0 < x"
  shows "2 powi (exponent x) \<le> x" and "x < 2 powi (exponent x + 1)"
proof -
  show "2 powi (exponent x) \<le> x"
  proof (cases "1 \<le> x")
    case True
    define m where "m = \<lfloor>x\<rfloor>"
    have m1: "0 < m" using True by (simp add: m_def)
    have e: "exponent x = bits m - 1" using True by (simp add: exponent_def m_def)
    have nn: "0 \<le> bits m - 1" using bits_pos [OF m1] by simp
    have "(2::rat) powi (bits m - 1) = of_int (2 ^ nat (bits m - 1))"
      using nn by (simp add: power_int_def)
    also have "\<dots> \<le> of_int m" using bits_lower [OF m1] by (simp only: of_int_le_iff)
    also have "\<dots> \<le> x" by (simp add: m_def)
    finally show ?thesis unfolding e .
  next
    case False
    define c where "c = \<lceil>1 / x\<rceil>"
    define k where "k = bits (c - 1)"
    have y1: "1 < 1 / x" using assms False by simp
    have c2: "0 < c - 1" using y1 by (simp add: c_def less_ceiling_iff)
    have kp: "0 < k" unfolding k_def using c2 by (rule bits_pos)
    have e: "exponent x = - k" using False by (simp add: exponent_def c_def k_def)
    have "c - 1 < 2 ^ nat k" unfolding k_def using c2 by (rule bits_upper)
    then have "c \<le> 2 ^ nat k" by simp
    then have "(of_int c :: rat) \<le> 2 ^ nat k"
      by (metis of_int_le_iff of_int_numeral of_int_power)
    moreover have "1 / x \<le> of_int c" by (simp add: c_def)
    ultimately have "1 / x \<le> 2 ^ nat k" by linarith
    then have "1 / 2 ^ nat k \<le> x" using assms by (simp add: field_simps)
    moreover have "(2::rat) powi (- k) = 1 / 2 ^ nat k"
      using kp by (simp add: power_int_def power_inverse inverse_eq_divide power_one_over)
    ultimately show ?thesis unfolding e by simp
  qed
  show "x < 2 powi (exponent x + 1)"
  proof (cases "1 \<le> x")
    case True
    define m where "m = \<lfloor>x\<rfloor>"
    have m1: "0 < m" using True by (simp add: m_def)
    have e: "exponent x = bits m - 1" using True by (simp add: exponent_def m_def)
    have nn: "0 \<le> bits m" using bits_pos [OF m1] by simp
    have "x < of_int (m + 1)" unfolding m_def by linarith
    also have "\<dots> \<le> of_int (2 ^ nat (bits m))"
    proof -
      have "m + 1 \<le> 2 ^ nat (bits m)" using bits_upper [OF m1] by simp
      then show ?thesis by (simp only: of_int_le_iff)
    qed
    also have "\<dots> = (2::rat) powi (bits m)" using nn by (simp add: power_int_def)
    finally show ?thesis unfolding e by simp
  next
    case False
    define c where "c = \<lceil>1 / x\<rceil>"
    define k where "k = bits (c - 1)"
    have y1: "1 < 1 / x" using assms False by simp
    have c2: "0 < c - 1" using y1 by (simp add: c_def less_ceiling_iff)
    have kp: "0 < k" unfolding k_def using c2 by (rule bits_pos)
    have e: "exponent x = - k" using False by (simp add: exponent_def c_def k_def)
    have "(2::int) ^ nat (k - 1) \<le> c - 1" unfolding k_def using c2 by (rule bits_lower)
    then have "(2 ^ nat (k - 1) :: rat) \<le> of_int (c - 1)"
      by (metis of_int_le_iff of_int_numeral of_int_power)
    moreover have "of_int (c - 1) < 1 / x" unfolding c_def by linarith
    ultimately have "2 ^ nat (k - 1) < 1 / x" by linarith
    then have "x < 1 / 2 ^ nat (k - 1)" using assms by (simp add: field_simps)
    moreover have "(2::rat) powi (- k + 1) = 1 / 2 ^ nat (k - 1)"
    proof -
      have "- k + 1 = - (k - 1)" by simp
      moreover have "0 \<le> k - 1" using kp by simp
      ultimately show ?thesis
        by (simp add: power_int_def power_inverse inverse_eq_divide power_one_over nat_diff_distrib)
    qed
    ultimately show ?thesis unfolding e by simp
  qed
qed

lemma exponent_unique:
  assumes "0 < x" and "2 powi e \<le> x" and "x < 2 powi (e + 1)"
  shows "exponent x = e"
proof -
  have a: "(2::rat) powi (exponent x) < 2 powi (e + 1)"
    using exponent_bounds(1) [OF assms(1)] assms(3) by linarith
  have b: "(2::rat) powi e < 2 powi (exponent x + 1)"
    using exponent_bounds(2) [OF assms(1)] assms(2) by linarith
  have "exponent x < e + 1"
  proof (rule ccontr)
    assume "\<not> exponent x < e + 1"
    then have "e + 1 \<le> exponent x" by simp
    then have "(2::rat) powi (e + 1) \<le> 2 powi (exponent x)"
      by (intro power_int_increasing) simp_all
    with a show False by linarith
  qed
  moreover have "e < exponent x + 1"
  proof (rule ccontr)
    assume "\<not> e < exponent x + 1"
    then have "exponent x + 1 \<le> e" by simp
    then have "(2::rat) powi (exponent x + 1) \<le> 2 powi e"
      by (intro power_int_increasing) simp_all
    with b show False by linarith
  qed
  ultimately show ?thesis by simp
qed


lemma round_half_even_le: "round_half_even q \<le> \<lfloor>q\<rfloor> + 1"
  by (simp add: round_half_even_def Let_def)

lemma round_half_even_ge: "\<lfloor>q\<rfloor> \<le> round_half_even q"
  by (simp add: round_half_even_def Let_def)

lemma max_double_ge: "(2::rat) powi 1023 \<le> max_double"
proof -
  have "(2::rat) ^ 1023 = 2 ^ 52 * 2 ^ 971" by (simp add: power_add [symmetric])
  also have "\<dots> \<le> (2 ^ 53 - 1) * 2 ^ 971" by (intro mult_right_mono) simp_all
  finally show ?thesis by (simp add: max_double_def)
qed

lemma fl_at:
  assumes "0 < x" and "2 powi e \<le> x" and "x < 2 powi (e + 1)"
    and "- 1022 \<le> e" and "e \<le> 1022"
    and "round_half_even (x / 2 powi (e - 52)) = m"
  shows "fl x = Finite (of_int m * 2 powi (e - 52))"
proof -
  have ex: "exponent x = e" using assms(1-3) by (rule exponent_unique)
  have mx: "max (exponent x) (- 1022) = e" using ex assms(4) by simp
  have rp: "round_pos x = of_int m * 2 powi (e - 52)"
    unfolding round_pos_def mx Let_def pow2_powi assms(6) ..
  have up: "(0::rat) < 2 powi (e - 52)" by simp
  have "x / 2 powi (e - 52) < 2 powi (e + 1) / 2 powi (e - 52)"
    using assms(3) up by (simp add: divide_strict_right_mono)
  also have "\<dots> = 2 powi 53"
  proof -
    have "(2::rat) powi (e - 52 + 53) = 2 powi (e - 52) * 2 powi 53"
      by (rule power_int_add) simp
    moreover have "e - 52 + 53 = e + 1" by simp
    ultimately have "(2::rat) powi (e + 1) = 2 powi (e - 52) * 2 powi 53" by simp
    then show ?thesis by simp
  qed
  finally have "x / 2 powi (e - 52) < of_int (2 ^ 53)" by simp
  then have "\<lfloor>x / 2 powi (e - 52)\<rfloor> < 2 ^ 53" by (simp only: floor_less_iff)
  then have "m \<le> 2 ^ 53"
    using round_half_even_le [of "x / 2 powi (e - 52)"] assms(6) by linarith
  then have "(of_int m :: rat) \<le> 2 powi 53"
    by (metis of_int_le_iff of_int_numeral of_int_power power_int_numeral)
  then have "(of_int m :: rat) * 2 powi (e - 52) \<le> 2 powi 53 * 2 powi (e - 52)"
    using up by (intro mult_right_mono) simp_all
  also have "\<dots> = 2 powi (e + 1)"
  proof -
    have "(2::rat) powi (53 + (e - 52)) = 2 powi 53 * 2 powi (e - 52)"
      by (rule power_int_add) simp
    moreover have "53 + (e - 52) = e + 1" by simp
    ultimately show ?thesis by simp
  qed
  also have "\<dots> \<le> 2 powi 1023"
    using assms(5) by (intro power_int_increasing) simp_all
  also have "\<dots> \<le> max_double" by (rule max_double_ge)
  finally have "\<not> max_double < round_pos x" unfolding rp by simp
  with assms(1) show ?thesis by (simp add: fl_def rp)
qed

lemma floor_numeral_quotient:
  "\<lfloor>(numeral a :: rat) / numeral b\<rfloor> = numeral a div numeral b"
  using floor_divide_of_int_eq [of "numeral a" "numeral b", where ?'a = rat] by simp

lemmas round_eval = round_half_even_def Let_def floor_numeral_quotient

lemma round_half_even_int: "round_half_even (of_int k) = k"
  by (simp add: round_half_even_def)

lemma round_pos_int:
  assumes "0 < n" and "n \<le> 2 ^ 53"
  shows "round_pos (of_int n) = of_int n"
proof -
  have one: "(1::rat) \<le> of_int n" using assms(1) by simp
  have ex: "exponent (of_int n) = bits n - 1" using one by (simp add: exponent_def)
  have e0: "0 \<le> bits n - 1" using bits_pos [OF assms(1)] by simp
  have e53: "nat (bits n - 1) \<le> 53"
  proof (rule power_le_imp_le_exp)
    show "(1::int) < 2" by simp
    show "(2::int) ^ nat (bits n - 1) \<le> 2 ^ 53"
      using bits_lower [OF assms(1)] assms(2) by linarith
  qed
  define k where "k = nat (bits n - 1)"
  have ek: "bits n - 1 = int k" using e0 by (simp add: k_def)
  have mx: "max (exponent (of_int n)) (- 1022) = int k" using ex ek by simp
  show ?thesis
  proof (cases "k \<le> 52")
    case True
    have u: "pow2 (int k - 52) = 1 / 2 ^ (52 - k)"
    proof (cases "k = 52")
      case True
      then show ?thesis by (simp add: pow2_def)
    next
      case False
      with \<open>k \<le> 52\<close> have "k < 52" by simp
      then show ?thesis by (simp add: pow2_def nat_diff_distrib)
    qed
    have q: "(of_int n :: rat) / (1 / 2 ^ (52 - k)) = of_int (n * 2 ^ (52 - k))" by simp
    show ?thesis
      unfolding round_pos_def mx Let_def u q round_half_even_int by simp
  next
    case False
    with e53 have k53: "k = 53" by (simp add: k_def)
    have "(2::int) ^ 53 \<le> n" using bits_lower [OF assms(1)] ek k53 by simp
    with assms(2) have n: "n = 2 ^ 53" by simp
    have u: "pow2 (int k - 52) = 2" using k53 by (simp add: pow2_def)
    have q: "(of_int n :: rat) / 2 = of_int (2 ^ 52)" unfolding n by simp
    show ?thesis
      unfolding round_pos_def mx Let_def u q round_half_even_int unfolding n by simp
  qed
qed

lemma fl_of_int_exact:
  assumes "\<bar>n\<bar> \<le> 2 ^ 53"
  shows "fl (of_int n) = Finite (of_int n)"
proof -
  have big: "(2::rat) ^ 53 \<le> max_double" by (simp add: max_double_def)
  consider "n = 0" | "0 < n" | "n < 0" by linarith
  then show ?thesis
  proof cases
    case 1
    then show ?thesis by (simp add: fl_def)
  next
    case 2
    with assms have le: "n \<le> 2 ^ 53" by simp
    have r: "round_pos (of_int n) = of_int n" using 2 le by (rule round_pos_int)
    have "(of_int n :: rat) \<le> 2 ^ 53" using le by (metis of_int_le_iff of_int_numeral of_int_power)
    with big have "\<not> max_double < of_int n" by linarith
    with 2 r show ?thesis by (simp add: fl_def)
  next
    case 3
    with assms have le: "- n \<le> 2 ^ 53" and pos: "0 < - n" by simp_all
    have r: "round_pos (of_int (- n)) = of_int (- n)" using pos le by (rule round_pos_int)
    have "(of_int (- n) :: rat) \<le> 2 ^ 53" using le by (metis of_int_le_iff of_int_numeral of_int_power)
    with big have "\<not> max_double < of_int (- n)" by linarith
    with 3 r show ?thesis by (simp add: fl_def)
  qed
qed





lemma Number_of_BigInt_exact: "\<bar>n\<bar> \<le> 2 ^ 53 \<Longrightarrow> Number_of_BigInt n = Finite (of_int n)"
  by (simp add: Number_of_BigInt_def fl_of_int_exact)

lemma fl_numeral_exact: "numeral k \<le> (2::int) ^ 53 \<Longrightarrow> fl (numeral k) = Finite (numeral k)"
  using fl_of_int_exact [of "numeral k"] by simp

lemma fl_small: "fl 0 = Finite 0" "fl 1 = Finite 1"
  using fl_of_int_exact [of 0] fl_of_int_exact [of 1] by simp_all

section \<open>Properties of the share computation\<close>

lemmas BigInt_eval =
  BigInt_of_string_def trim_def is_space_def BigInt_of_digits_def is_digit_def digits_val_def
  digit_val_def radix_of_def radix_digit_def BigInt_of_radix_def

lemma BigInt_samples:
  "BigInt_of_string ''0x3E8'' = Some 1000" "BigInt_of_string '' 20 '' = Some 20"
  "BigInt_of_string ''-5'' = Some (- 5)" "BigInt_of_string ''1e+21'' = None"
  "BigInt_of_string [] = Some 0" "BigInt_of_string ''0x'' = None"
  by (simp_all add: BigInt_eval)

lemma bigint_div_nonneg: "0 \<le> n \<Longrightarrow> 0 < d \<Longrightarrow> bigint_div n d = n div d"
  by (cases "n = 0") (simp_all add: bigint_div_def)


lemma scaled_nonneg: "0 \<le> a \<Longrightarrow> 0 < t \<Longrightarrow> percentBigInt_scaled a t = (a * 10000) div t"
  by (simp add: percentBigInt_scaled_def bigint_div_nonneg)

lemma floor_quotient: "0 < t \<Longrightarrow> \<lfloor>(of_int a * 10000 / of_int t :: rat)\<rfloor> = (a * 10000) div t"
proof -
  have "(of_int a * 10000 / of_int t :: rat) = of_int (a * 10000) / of_int t" by simp
  then show ?thesis by (simp only: floor_divide_of_int_eq)
qed

lemma Number_2_53_1: "Number_of_BigInt 9007199254740993 = Finite 9007199254740992"
  unfolding Number_of_BigInt_def
  using fl_at [of 9007199254740993 53 4503599627370496] by (simp add: round_eval)

lemma div_large_hundred:
  "double_div (Finite 9007199254740992) (Finite 100) = Finite (5764607523034235 / 64)"
  using fl_at [of "9007199254740992 / 100" 46 5764607523034235] by (simp add: round_eval)

lemma fl_large_formula:
  "map_option fl (Some (9007199254740993 / 100)) = Some (Finite (5764607523034236 / 64))"
  using fl_at [of "9007199254740993 / 100" 46 5764607523034236] by (simp add: round_eval)

lemma div_helius:
  "double_div (Finite 1999996) (Finite 10000000) = Finite (3602872496136993 / 18014398509481984)"
  using fl_at [of "1999996 / 10000000" "- 3" 7205744992273986] by (simp add: round_eval)

lemma mul_helius:
  "double_mul (Finite (3602872496136993 / 18014398509481984)) (Finite 100)
     = Finite (1407372068803513 / 70368744177664)"
  using fl_at [of "3602872496136993 / 18014398509481984 * 100" 4 5629488275214052]
  by (simp add: round_eval)

lemma toFixed4_helius:
  "toFixed4 (Finite (1407372068803513 / 70368744177664)) = Finite 20"
  using fl_of_int_exact [of 20] by (simp add: toFixed4_def floor_numeral_quotient)

lemma div_1234: "double_div (Finite 1234) (Finite 100) = Finite (3473401212609495 / 281474976710656)"
  using fl_at [of "1234 / 100" 3 6946802425218990] by (simp add: round_eval)

lemma helius_sum_one: "foldl (\<lambda>acc amount. double_add acc (if double_truthy amount then amount else Finite 0))
         (Finite 0) (take 10 [Finite 1999996]) = Finite 1999996"
  using fl_of_int_exact [of 1999996] by simp

lemma helius_near_fifth_run:
  "computeTop10PercentViaHelius (Some near_fifth_reply)
     = (Some (toFixed4 (double_mul (double_div (Finite 1999996) (Finite 10000000)) (Finite 100))), [])"
  using helius_sum_one
  by (simp add: computeTop10PercentViaHelius_def near_fifth_reply_def Let_def
      del: double_div.simps double_mul.simps double_add.simps foldl.simps take.simps)

lemma helius_near_fifth:
  "toFixed4 (double_mul (double_div (Finite 1999996) (Finite 10000000)) (Finite 100)) = Finite 20"
  by (simp only: div_helius mul_helius toFixed4_helius)

text \<open>
  C3, as the specification states it, fails. \<open>percentBigInt\<close> divides in \<open>BigInt\<close> but
  returns \<open>Number(scaled) / 100\<close>, two roundings to a double: for the amount
  \<open>2^53 + 1\<close> and the total 10000 the formula gives \<open>90071992547409.93\<close>, whose
  nearest double is \<open>5764607523034236 / 64\<close>, and the code returns
  \<open>5764607523034235 / 64\<close>. \<open>computeTop10PercentViaHelius\<close> computes in floating point
  and rounds to four decimals: for 1999996 out of 10000000 it returns 20, where the
  formula gives 19.99.
\<close>

theorem percentBigInt_double_rounding_counterexample:
  "sharePercent_spec 9007199254740993 10000 = Some (9007199254740993 / 100)
   \<and> map_option fl (sharePercent_spec 9007199254740993 10000) = Some (Finite (5764607523034236 / 64))
   \<and> percentBigInt 9007199254740993 10000 = Finite (5764607523034235 / 64)
   \<and> map_option fl (sharePercent_spec 9007199254740993 10000) \<noteq> Some (percentBigInt 9007199254740993 10000)
   \<and> sharePercent_spec 1999996 10000000 = Some (1999 / 100)
   \<and> computeTop10PercentViaHelius (Some near_fifth_reply) = (Some (Finite 20), [])"
proof -
  have s1: "sharePercent_spec 9007199254740993 10000 = Some (9007199254740993 / 100)"
    by (simp add: sharePercent_spec_def)
  have s2: "map_option fl (sharePercent_spec 9007199254740993 10000) = Some (Finite (5764607523034236 / 64))"
    unfolding s1 by (rule fl_large_formula)
  have sc: "percentBigInt_scaled 9007199254740993 10000 = 9007199254740993"
    by (simp add: scaled_nonneg)
  have p: "percentBigInt 9007199254740993 10000 = Finite (5764607523034235 / 64)"
    by (simp only: percentBigInt_def sc Number_2_53_1 div_large_hundred) simp
  have ne: "map_option fl (sharePercent_spec 9007199254740993 10000) \<noteq> Some (percentBigInt 9007199254740993 10000)"
    unfolding s2 p by simp
  have s3: "sharePercent_spec 1999996 10000000 = Some (1999 / 100)"
    by (simp add: sharePercent_spec_def floor_numeral_quotient)
  have h: "computeTop10PercentViaHelius (Some near_fifth_reply) = (Some (Finite 20), [])"
    unfolding helius_near_fifth_run helius_near_fifth by simp
  from s1 s2 p ne s3 h show ?thesis by blast
qed

text \<open>
  C3, amended. For a non-negative amount and a positive total, \<open>percentBigInt\<close>
  computes the scaled quotient \<open>floor(amount * 10000 / total)\<close> exactly in \<open>BigInt\<close>
  arithmetic, cutting off and never rounding up (a hundredth of it is at most the true
  percentage and less than one hundredth below it), and returns the double
  \<open>Number(scaled) / 100\<close>; while the scaled quotient is at most \<open>2^53\<close> that is the
  double nearest to \<open>floor(amount * 10000 / total) / 100\<close>.
  \<open>computeTop10PercentViaHelius\<close> computes in floating point: it returns \<open>null\<close> (with a
  warning) when the request fails and \<open>null\<close> when the supply is missing, zero or
  \<open>NaN\<close>, and otherwise the double \<open>(sumTop / supply) * 100\<close> rounded by \<open>toFixed(4)\<close>,
  which for a value \<open>p\<close> from 0 up to \<open>10^21\<close> is the double nearest to \<open>k / 10000\<close> for
  an integer \<open>k\<close> nearest to \<open>p * 10000\<close>.
\<close>

theorem percentBigInt_floor_then_rounded:
  assumes "0 \<le> amount" and "0 < tot"
  shows "percentBigInt_scaled amount tot = \<lfloor>(of_int amount * 10000 / of_int tot :: rat)\<rfloor>
       \<and> percentBigInt_scaled amount tot = (amount * 10000) div tot
       \<and> (of_int (percentBigInt_scaled amount tot) / 100 :: rat) \<le> of_int amount * 100 / of_int tot
       \<and> (of_int amount * 100 / of_int tot :: rat) < of_int (percentBigInt_scaled amount tot) / 100 + 1 / 100
       \<and> percentBigInt amount tot
           = double_div (Number_of_BigInt \<lfloor>(of_int amount * 10000 / of_int tot :: rat)\<rfloor>) (Finite 100)
       \<and> (percentBigInt_scaled amount tot \<le> 2 ^ 53
            \<longrightarrow> percentBigInt amount tot = fl (of_int \<lfloor>(of_int amount * 10000 / of_int tot :: rat)\<rfloor> / 100)
              \<and> map_option fl (sharePercent_spec amount tot) = Some (percentBigInt amount tot))
       \<and> computeTop10PercentViaHelius None
           = (None, [''[WARN] computeTop10PercentViaHelius failed for''])
       \<and> (supply_value r = None \<or> supply_value r = Some (Finite 0) \<or> supply_value r = Some NaN
            \<longrightarrow> computeTop10PercentViaHelius (Some r) = (None, []))
       \<and> (supply_value r = Some supply \<and> double_truthy supply
            \<longrightarrow> computeTop10PercentViaHelius (Some r)
                = (Some (toFixed4 (double_mul
                     (double_div
                        (foldl (\<lambda>acc a. double_add acc (if double_truthy a then a else Finite 0))
                           (Finite 0) (take 10 (largest_amounts r)))
                        supply)
                     (Finite 100))), []))
       \<and> (0 \<le> p \<and> p < 10 ^ 21
            \<longrightarrow> (\<exists>k. toFixed4 (Finite p) = fl (of_int k / 10000) \<and> \<bar>of_int k - p * 10000\<bar> \<le> 1 / 2))"
proof -
  define q :: rat where "q = of_int amount * 10000 / of_int tot"
  define s where "s = percentBigInt_scaled amount tot"
  have fq: "\<lfloor>q\<rfloor> = (amount * 10000) div tot" unfolding q_def using assms(2) by (rule floor_quotient)
  have c2: "s = (amount * 10000) div tot" unfolding s_def using assms by (rule scaled_nonneg)
  have c1: "s = \<lfloor>q\<rfloor>" using c2 fq by simp
  have lo: "of_int s \<le> q" unfolding c1 by (rule of_int_floor_le)
  have hi: "q < of_int s + 1" unfolding c1 by linarith
  have e: "(of_int amount * 100 / of_int tot :: rat) = q / 100" by (simp add: q_def)
  have c3: "(of_int s / 100 :: rat) \<le> of_int amount * 100 / of_int tot"
    unfolding e using lo by simp
  have c4: "(of_int amount * 100 / of_int tot :: rat) < of_int s / 100 + 1 / 100"
    unfolding e using hi by (simp add: add_divide_distrib [symmetric] divide_strict_right_mono)
  have c5: "percentBigInt amount tot = double_div (Number_of_BigInt \<lfloor>q\<rfloor>) (Finite 100)"
    using assms(2) c1 by (simp add: percentBigInt_def s_def)
  have s0: "0 \<le> s" unfolding c2 using assms by (simp add: pos_imp_zdiv_nonneg_iff)
  have c6: "s \<le> 2 ^ 53 \<longrightarrow> percentBigInt amount tot = fl (of_int \<lfloor>q\<rfloor> / 100)
              \<and> map_option fl (sharePercent_spec amount tot) = Some (percentBigInt amount tot)"
  proof
    assume le: "s \<le> 2 ^ 53"
    with s0 have "\<bar>s\<bar> \<le> 2 ^ 53" by simp
    then have "Number_of_BigInt s = Finite (of_int s)" by (rule Number_of_BigInt_exact)
    then have a: "percentBigInt amount tot = fl (of_int \<lfloor>q\<rfloor> / 100)"
      unfolding c5 c1 [symmetric] by simp
    have "sharePercent_spec amount tot = Some (of_int \<lfloor>q\<rfloor> / 100)"
      using assms(2) by (simp add: sharePercent_spec_def q_def)
    with a show "percentBigInt amount tot = fl (of_int \<lfloor>q\<rfloor> / 100)
              \<and> map_option fl (sharePercent_spec amount tot) = Some (percentBigInt amount tot)"
      by simp
  qed
  have c7: "computeTop10PercentViaHelius None
           = (None, [''[WARN] computeTop10PercentViaHelius failed for''])"
    by (simp add: computeTop10PercentViaHelius_def)
  have c8: "supply_value r = None \<or> supply_value r = Some (Finite 0) \<or> supply_value r = Some NaN
            \<longrightarrow> computeTop10PercentViaHelius (Some r) = (None, [])"
    by (auto simp: computeTop10PercentViaHelius_def)
  have c9: "supply_value r = Some supply \<and> double_truthy supply
            \<longrightarrow> computeTop10PercentViaHelius (Some r)
                = (Some (toFixed4 (double_mul
                     (double_div
                        (foldl (\<lambda>acc a. double_add acc (if double_truthy a then a else Finite 0))
                           (Finite 0) (take 10 (largest_amounts r)))
                        supply)
                     (Finite 100))), [])"
    by (simp add: computeTop10PercentViaHelius_def Let_def)
  have c10: "0 \<le> p \<and> p < 10 ^ 21
            \<longrightarrow> (\<exists>k. toFixed4 (Finite p) = fl (of_int k / 10000) \<and> \<bar>of_int k - p * 10000\<bar> \<le> 1 / 2)"
  proof
    assume h: "0 \<le> p \<and> p < 10 ^ 21"
    define k where "k = \<lfloor>p * 10000 + 1 / 2\<rfloor>"
    have k1: "of_int k \<le> p * 10000 + 1 / 2" unfolding k_def by (rule of_int_floor_le)
    have k2: "p * 10000 + 1 / 2 < of_int k + 1" unfolding k_def by linarith
    have near: "\<bar>of_int k - p * 10000\<bar> \<le> 1 / 2" using k1 k2 by linarith
    have "toFixed4 (Finite p) = fl (of_int k / 10000)"
    proof (cases "p = 0")
      case True
      have "\<lfloor>(1 / 2 :: rat)\<rfloor> = 0" by (rule floor_unique) simp_all
      with True show ?thesis by (simp add: toFixed4_def k_def)
    next
      case False
      with h have "0 < p" by simp
      with h show ?thesis by (simp add: toFixed4_def k_def)
    qed
    with near show "\<exists>k. toFixed4 (Finite p) = fl (of_int k / 10000) \<and> \<bar>of_int k - p * 10000\<bar> \<le> 1 / 2"
      by blast
  qed
  from c1 c2 c3 c4 c5 c6 c7 c8 c9 c10 show ?thesis unfolding s_def q_def by blast
qed

theorem percentBigInt_floor_then_rounded_witness:
  "(0::int) \<le> 1234 \<and> (0::int) < 10000
   \<and> percentBigInt_scaled 1234 10000 = 1234
   \<and> percentBigInt_scaled 1234 10000 \<le> 2 ^ 53
   \<and> percentBigInt 1234 10000 = Finite (3473401212609495 / 281474976710656)
   \<and> supply_value near_fifth_reply = Some (Finite 10000000)
   \<and> double_truthy (Finite 10000000)
   \<and> computeTop10PercentViaHelius (Some near_fifth_reply) = (Some (Finite 20), [])"
proof -
  have sc: "percentBigInt_scaled 1234 10000 = 1234" by (simp add: scaled_nonneg)
  have sv: "supply_value near_fifth_reply = Some (Finite 10000000)"
    and la: "largest_amounts near_fifth_reply = [Finite 1999996]"
    by (simp_all add: near_fifth_reply_def)
  have t: "double_truthy (Finite 10000000)" by simp
  have fq: "\<lfloor>(of_int 1234 * 10000 / of_int 10000 :: rat)\<rfloor> = 1234" by simp
  have d: "fl (of_int 1234 / 100) = Finite (3473401212609495 / 281474976710656)"
    using div_1234 by simp
  have le: "(0::int) \<le> 1234" and lt: "(0::int) < 10000" by simp_all
  from percentBigInt_floor_then_rounded [of 1234 10000 near_fifth_reply "Finite 10000000" 0, OF le lt]
  have a: "percentBigInt_scaled 1234 10000 \<le> 2 ^ 53
            \<longrightarrow> percentBigInt 1234 10000 = fl (of_int \<lfloor>(of_int 1234 * 10000 / of_int 10000 :: rat)\<rfloor> / 100)"
    and b: "supply_value near_fifth_reply = Some (Finite 10000000) \<and> double_truthy (Finite 10000000)
            \<longrightarrow> computeTop10PercentViaHelius (Some near_fifth_reply)
                = (Some (toFixed4 (double_mul
                     (double_div
                        (foldl (\<lambda>acc a. double_add acc (if double_truthy a then a else Finite 0))
                           (Finite 0) (take 10 (largest_amounts near_fifth_reply)))
                        (Finite 10000000))
                     (Finite 100))), [])"
    by blast+
  have p: "percentBigInt 1234 10000 = Finite (3473401212609495 / 281474976710656)"
    using a sc unfolding fq d by simp
  have h: "computeTop10PercentViaHelius (Some near_fifth_reply) = (Some (Finite 20), [])"
    using b sv t unfolding la helius_sum_one by (simp only: helius_near_fifth simp_thms)
  from sc p sv t h show ?thesis by simp
qed

text \<open>
  C8. Scaling a non-negative amount and a positive total by the same positive factor
  leaves \<open>percentBigInt\<close> unchanged.
\<close>

theorem percentBigInt_scale_invariant:
  assumes "0 \<le> amount" and "0 < tot" and "0 < k"
  shows "percentBigInt (k * amount) (k * tot) = percentBigInt amount tot"
proof -
  have ka: "0 \<le> k * amount" and kt: "0 < k * tot" using assms by simp_all
  have "(k * amount * 10000) div (k * tot) = (amount * 10000) div tot"
    using assms(3) by (simp add: mult.assoc)
  then have "percentBigInt_scaled (k * amount) (k * tot) = percentBigInt_scaled amount tot"
    using assms ka kt by (simp add: scaled_nonneg)
  then show ?thesis using assms kt by (simp add: percentBigInt_def)
qed

theorem percentBigInt_scale_invariant_witness:
  "(0::int) \<le> 1 \<and> (0::int) < 3 \<and> (0::int) < 7 \<and> percentBigInt (7 * 1) (7 * 3) = percentBigInt 1 3"
  using percentBigInt_scale_invariant [of 1 3 7] by simp






section \<open>The developer share\<close>

lemma percent_whole:
  "percentBigInt 2 100 = Finite 2" "percentBigInt 50 100 = Finite 50"
  "percentBigInt 20 1000 = Finite 2"
  by (simp_all add: percentBigInt_def percentBigInt_scaled_def bigint_div_def Number_of_BigInt_def
      fl_numeral_exact)







section \<open>Early exits and the unavailable ledger\<close>

lemma resolve_good: "resolve_metrics default_config w good_token = good_metrics"
  by (simp add: resolve_metrics_def default_config_def good_token_def good_metrics_def)

lemma resolve_good_redis: "resolve_metrics redis_config w good_token = good_metrics"
  by (simp add: resolve_metrics_def redis_config_def default_config_def good_token_def good_metrics_def)

lemma passed_good: "passed default_config good_metrics" "passed redis_config good_metrics"
  by (simp_all add: passed_def redis_config_def default_config_def good_metrics_def)

lemma address_good: "canonical_address good_token = Some ''Mint1''"
  by (simp add: canonical_address_def good_token_def or_str_def truthy_str_def)

lemma address_nameless: "\<not> truthy_str (canonical_address nameless_token)"
  by (simp add: canonical_address_def nameless_token_def good_token_def or_str_def truthy_str_def)

lemma logs_say: "logs (say line st) = logs st @ [line]"
  by (simp add: say_def)

lemma logs_markProcessed: "set (logs st) \<subseteq> set (logs (snd (markProcessed cfg w st a)))"
  by (auto simp: markProcessed_def Let_def say_def split: option.splits)

lemma logs_sendTelegramMessage: "set (logs st) \<subseteq> set (logs (snd (sendTelegramMessage cfg w st m)))"
  by (auto simp: sendTelegramMessage_def say_def split: post_result.splits)

lemma logs_evaluateToken: "set (logs st) \<subseteq> set (logs (evaluateToken cfg w st token a))"
proof -
  define m where "m = resolve_metrics cfg w token"
  define st1 where "st1 = (if volume24h m = None
      then say ''[INFO] skipping token because 24h volume not visible:'' st else st)"
  have s1: "set (logs st) \<subseteq> set (logs st1)" by (auto simp: st1_def say_def)
  show ?thesis
  proof (cases "passed cfg m")
    case True
    define st2 where "st2 = snd (sendTelegramMessage cfg w st1 (Message a m))"
    define st3 where "st3 = snd (markProcessed cfg w st2 a)"
    have e: "evaluateToken cfg w st token a
               = say ''[INFO] token matched filters and was reported:'' st3"
      using True by (simp add: evaluateToken_def Let_def m_def st1_def st2_def st3_def)
    have "set (logs st1) \<subseteq> set (logs st2)"
      unfolding st2_def by (rule logs_sendTelegramMessage)
    moreover have "set (logs st2) \<subseteq> set (logs st3)"
      unfolding st3_def by (rule logs_markProcessed)
    moreover have "set (logs st3)
        \<subseteq> set (logs (say ''[INFO] token matched filters and was reported:'' st3))"
      by (auto simp: logs_say)
    ultimately show ?thesis using s1 unfolding e by blast
  next
    case False
    define st2 where "st2 = (if marketcap m \<noteq> None \<and> holders m \<noteq> None
        then snd (markProcessed cfg w st1 a) else st1)"
    have e: "evaluateToken cfg w st token a = say ''[INFO] token did not match filters:'' st2"
      using False by (simp add: evaluateToken_def Let_def m_def st1_def st2_def)
    have "set (logs st1) \<subseteq> set (logs st2)"
      unfolding st2_def using logs_markProcessed by auto
    moreover have "set (logs st2) \<subseteq> set (logs (say ''[INFO] token did not match filters:'' st2))"
      by (auto simp: logs_say)
    ultimately show ?thesis using s1 unfolding e by blast
  qed
qed

lemma console_mark: "console (mark w key ex st) = console st"
  by (simp add: mark_def)

lemma console_tell: "console (tell line st) = console st @ [line]"
  by (simp add: tell_def)

lemma console_sendTelegramMarkdown: "set (console st) \<subseteq> set (console (sendTelegramMarkdown w m st))"
  by (auto simp: sendTelegramMarkdown_def tell_def split: post_result.splits)

lemma console_evaluateTokenEvent:
  "set (console st) \<subseteq> set (console (evaluateTokenEvent w st c a creator))"
  using console_sendTelegramMarkdown
  by (auto simp: evaluateTokenEvent_def Let_def console_mark console_tell
      split: option.splits)


text \<open>
  C10. A candidate without an identifier leaves the pipeline at once: \<open>processToken\<close>
  only prints a warning, \<open>processTokenEvent\<close> does nothing; neither writes a ledger
  entry nor sends a message, and the ledger is as it was.
\<close>

theorem no_identifier_no_effect:
  "(\<not> truthy_str (canonical_address token)
     \<longrightarrow> processToken cfg w st token = say ''[WARN] token missing address/mint:'' st
       \<and> redis_store (processToken cfg w st token) = redis_store st
       \<and> inMemoryProcessed (processToken cfg w st token) = inMemoryProcessed st
       \<and> sent (processToken cfg w st token) = sent st)
   \<and> (\<not> truthy_str (ev_address ev) \<longrightarrow> processTokenEvent sw sst ev = sst)"
  by (simp add: processToken_def processTokenEvent_def say_def)

theorem no_identifier_no_effect_witness:
  "\<not> truthy_str (canonical_address nameless_token)
   \<and> processToken default_config calm_world empty_bot nameless_token
       = empty_bot\<lparr>logs := [''[WARN] token missing address/mint:'']\<rparr>
   \<and> \<not> truthy_str (ev_address (mint_event\<lparr>ev_address := None\<rparr>))
   \<and> processTokenEvent passing_world empty_scanner (mint_event\<lparr>ev_address := None\<rparr>)
       = empty_scanner"
proof -
  have h: "\<not> truthy_str (ev_address (mint_event\<lparr>ev_address := None\<rparr>))"
    by (simp add: truthy_str_def)
  show ?thesis
    using no_identifier_no_effect [of nameless_token default_config calm_world empty_bot
        "mint_event\<lparr>ev_address := None\<rparr>" passing_world empty_scanner]
      address_nameless h
    by (simp add: say_def empty_bot_def)
qed

text \<open>
  C9. When the ledger read throws, the candidate is taken as unclaimed: the failure is
  logged and the evaluation runs, in \<open>processToken\<close> (through \<open>wasProcessed\<close>) and in
  \<open>processTokenEvent\<close>, whatever the ledger holds.
\<close>

theorem ledger_read_failure_fail_open:
  "(redisClient cfg \<and> redis_get_throws w \<and> truthy_str (canonical_address token)
     \<longrightarrow> wasProcessed cfg w st (or_default (canonical_address token) [])
           = (False, say ''[ERROR] redis get failed'' st)
       \<and> processToken cfg w st token
           = evaluateToken cfg w (say ''[ERROR] redis get failed'' st) token
               (or_default (canonical_address token) [])
       \<and> ''[ERROR] redis get failed'' \<in> set (logs (processToken cfg w st token)))
   \<and> (get_throws sw \<and> truthy_str (ev_address ev)
     \<longrightarrow> processTokenEvent sw sst ev
           = evaluateTokenEvent sw (tell ''Redis get failed (continuing):'' sst)
               (toLowerCase (or_default (ev_chain ev) ''unknown''))
               (toLowerCase (or_default (ev_address ev) [])) (ev_creator ev)
       \<and> ''Redis get failed (continuing):'' \<in> set (console (processTokenEvent sw sst ev)))"
proof -
  have a: "redisClient cfg \<and> redis_get_throws w \<and> truthy_str (canonical_address token)
     \<longrightarrow> wasProcessed cfg w st (or_default (canonical_address token) [])
           = (False, say ''[ERROR] redis get failed'' st)
       \<and> processToken cfg w st token
           = evaluateToken cfg w (say ''[ERROR] redis get failed'' st) token
               (or_default (canonical_address token) [])
       \<and> ''[ERROR] redis get failed'' \<in> set (logs (processToken cfg w st token))"
  proof
    assume h: "redisClient cfg \<and> redis_get_throws w \<and> truthy_str (canonical_address token)"
    let ?a = "or_default (canonical_address token) []"
    let ?st1 = "say ''[ERROR] redis get failed'' st"
    have was: "wasProcessed cfg w st ?a = (False, ?st1)"
      using h by (simp add: wasProcessed_def)
    have run: "processToken cfg w st token = evaluateToken cfg w ?st1 token ?a"
      using h was by (simp add: processToken_def)
    have "''[ERROR] redis get failed'' \<in> set (logs ?st1)" by (simp add: logs_say)
    then have "''[ERROR] redis get failed'' \<in> set (logs (evaluateToken cfg w ?st1 token ?a))"
      using logs_evaluateToken by blast
    with was run show "wasProcessed cfg w st ?a = (False, ?st1)
       \<and> processToken cfg w st token = evaluateToken cfg w ?st1 token ?a
       \<and> ''[ERROR] redis get failed'' \<in> set (logs (processToken cfg w st token))"
      by simp
  qed
  have b: "get_throws sw \<and> truthy_str (ev_address ev)
     \<longrightarrow> processTokenEvent sw sst ev
           = evaluateTokenEvent sw (tell ''Redis get failed (continuing):'' sst)
               (toLowerCase (or_default (ev_chain ev) ''unknown''))
               (toLowerCase (or_default (ev_address ev) [])) (ev_creator ev)
       \<and> ''Redis get failed (continuing):'' \<in> set (console (processTokenEvent sw sst ev))"
  proof
    assume h: "get_throws sw \<and> truthy_str (ev_address ev)"
    let ?st1 = "tell ''Redis get failed (continuing):'' sst"
    let ?r = "evaluateTokenEvent sw ?st1 (toLowerCase (or_default (ev_chain ev) ''unknown''))
               (toLowerCase (or_default (ev_address ev) [])) (ev_creator ev)"
    have run: "processTokenEvent sw sst ev = ?r"
      using h by (simp add: processTokenEvent_def Let_def)
    have "''Redis get failed (continuing):'' \<in> set (console ?st1)" by (simp add: console_tell)
    then have "''Redis get failed (continuing):'' \<in> set (console ?r)"
      using console_evaluateTokenEvent by blast
    with run show "processTokenEvent sw sst ev = ?r
       \<and> ''Redis get failed (continuing):'' \<in> set (console (processTokenEvent sw sst ev))"
      by simp
  qed
  from a b show ?thesis by (rule conjI)
qed


lemma lower_samples: "toLowerCase ''M1'' = ''m1''" "toLowerCase ''Solana'' = ''solana''"
  by (simp_all add: toLowerCase_def)

lemma balance_20: "balance_BigInt \<lparr>h_address = Some ''w1'', h_balance = Some ''20''\<rparr> = Some 20"
  by (simp add: balance_BigInt_def or_default_def BigInt_eval)

lemma supply_1000: "totalSupplyBig_of \<lparr>totalSupply = Some ''1000''\<rparr> = 1000"
  by (simp add: totalSupplyBig_of_def BigInt_eval)

lemma percent_20_1000: "percentBigInt 20 1000 = Finite 2"
  by (rule percent_whole)

lemma passing_run:
  assumes "meta_reply sw = Some \<lparr>totalSupply = Some ''1000''\<rparr>"
    and "holders_reply sw = Some (HoldersObject 50 [\<lparr>h_address = Some ''w1'', h_balance = Some ''20''\<rparr>])"
    and "market_reply sw = \<lparr>md_marketCap = Some 20000, md_volume24h = Some 500\<rparr>"
  shows "evaluateTokenEvent sw st ''solana'' ''m1'' None
         = tell ''Token passed and message sent for''
             (mark sw ''processed:solana:m1'' 86400 (sendTelegramMarkdown sw passing_alert st))"
  using assms
  by (simp add: evaluateTokenEvent_def Let_def balance_20 supply_1000 percent_20_1000
      devPercent_of_def truthy_str_def share_of_def or_null_num_def truthy_num_def
      passed_event_def passing_alert_def)

lemma evaluateToken_passed:
  assumes "resolve_metrics cfg w token = m" and "passed cfg m"
  shows "evaluateToken cfg w st token a
         = say ''[INFO] token matched filters and was reported:''
             (snd (markProcessed cfg w (snd (sendTelegramMessage cfg w st (Message a m))) a))"
proof -
  have "volume24h m \<noteq> None" using assms(2) by (simp add: passed_def)
  then show ?thesis using assms by (cases "volume24h m") (simp_all add: evaluateToken_def Let_def)
qed

lemma mint_fields:
  "ev_chain mint_event = Some ''Solana''" "ev_address mint_event = Some ''M1''"
  "ev_creator mint_event = None"
  by (simp_all add: mint_event_def)

theorem ledger_read_failure_fail_open_witness:
  "redisClient redis_config \<and> redis_get_throws (calm_world\<lparr>redis_get_throws := True\<rparr>)
   \<and> truthy_str (canonical_address good_token)
   \<and> ''[ERROR] redis get failed''
       \<in> set (logs (processToken redis_config (calm_world\<lparr>redis_get_throws := True\<rparr>)
                     marked_bot good_token))
   \<and> sent (processToken redis_config (calm_world\<lparr>redis_get_throws := True\<rparr>) marked_bot good_token)
       = [Message ''Mint1'' good_metrics]
   \<and> get_throws (passing_world\<lparr>get_throws := True\<rparr>) \<and> truthy_str (ev_address mint_event)
   \<and> ''Redis get failed (continuing):''
       \<in> set (console (processTokenEvent (passing_world\<lparr>get_throws := True\<rparr>) marked_scanner mint_event))
   \<and> alerts (processTokenEvent (passing_world\<lparr>get_throws := True\<rparr>) marked_scanner mint_event)
       = [passing_alert]"
proof -
  let ?w = "calm_world\<lparr>redis_get_throws := True\<rparr>"
  let ?sw = "passing_world\<lparr>get_throws := True\<rparr>"
  have h1: "redisClient redis_config" by (simp add: redis_config_def)
  have h2: "redis_get_throws ?w" by simp
  have h3: "truthy_str (canonical_address good_token)"
    by (simp add: address_good truthy_str_def)
  have h4: "get_throws ?sw" by simp
  have h5: "truthy_str (ev_address mint_event)" by (simp add: mint_fields truthy_str_def)
  have run2: "sent (evaluateToken redis_config ?w (say ''[ERROR] redis get failed'' marked_bot)
                good_token ''Mint1'') = [Message ''Mint1'' good_metrics]"
    by (subst evaluateToken_passed [OF resolve_good_redis passed_good(2)])
      (simp add: sendTelegramMessage_def markProcessed_def say_def redis_config_def
        default_config_def calm_world_def marked_bot_def empty_bot_def)
  have run3: "alerts (evaluateTokenEvent ?sw (tell ''Redis get failed (continuing):'' marked_scanner)
                ''solana'' ''m1'' None) = [passing_alert]"
    by (subst passing_run)
      (simp_all add: passing_world_def mark_def tell_def sendTelegramMarkdown_def
        marked_scanner_def empty_scanner_def)
  show ?thesis
    using ledger_read_failure_fail_open [of redis_config ?w good_token marked_bot ?sw mint_event
        marked_scanner] h1 h2 h3 h4 h5 run2 run3
    by (auto simp add: address_good or_default_def lower_samples mint_fields)
qed

section \<open>Marking after a failed delivery\<close>

lemma sendTelegramMessage_ledger:
  "redis_store (snd (sendTelegramMessage cfg w st m)) = redis_store st"
  "inMemoryProcessed (snd (sendTelegramMessage cfg w st m)) = inMemoryProcessed st"
  by (simp_all add: sendTelegramMessage_def say_def split: post_result.splits)

lemma sendTelegramMessage_failed:
  "telegram_post w = PostThrew \<Longrightarrow> sent (snd (sendTelegramMessage cfg w st m)) = sent st"
  by (simp add: sendTelegramMessage_def say_def)

lemma sendTelegramMessage_threw:
  "telegram_configured cfg \<Longrightarrow> telegram_post w = PostThrew
   \<Longrightarrow> sendTelegramMessage cfg w st m = (ReturnedNull, say ''[ERROR] sendTelegramMessage failed'' st)"
  by (simp add: sendTelegramMessage_def)

lemma sendTelegramMessage_posted:
  "telegram_configured cfg
   \<Longrightarrow> sendTelegramMessage cfg (w\<lparr>telegram_post := PostOk\<rparr>) st m
       = (ResponseData, st\<lparr>sent := sent st @ [m]\<rparr>)"
  by (simp add: sendTelegramMessage_def)

lemma markProcessed_ledger_cong:
  assumes "redis_store st = redis_store st'" and "inMemoryProcessed st = inMemoryProcessed st'"
  shows "redis_store (snd (markProcessed cfg (w\<lparr>telegram_post := r\<rparr>) st' a))
           = redis_store (snd (markProcessed cfg w st a))
       \<and> inMemoryProcessed (snd (markProcessed cfg (w\<lparr>telegram_post := r\<rparr>) st' a))
           = inMemoryProcessed (snd (markProcessed cfg w st a))"
  using assms by (auto simp: markProcessed_def Let_def say_def split: option.splits)

lemma wasProcessed_post: "wasProcessed cfg (w\<lparr>telegram_post := r\<rparr>) st a = wasProcessed cfg w st a"
  by (simp add: wasProcessed_def Let_def)

lemma resolve_metrics_post:
  "resolve_metrics cfg (w\<lparr>telegram_post := r\<rparr>) token = resolve_metrics cfg w token"
  by (simp add: resolve_metrics_def Let_def)

lemma markProcessed_sent: "sent (snd (markProcessed cfg w st a)) = sent st"
  by (simp add: markProcessed_def Let_def say_def split: option.splits)

lemma markProcessed_marks:
  assumes "redisClient cfg \<longrightarrow> \<not> redis_set_throws w"
  shows "if redisClient cfg
         then redis_store (snd (markProcessed cfg w st a)) (''processed:'' @ a) \<noteq> None
         else inMemoryProcessed (snd (markProcessed cfg w st a)) (''processed:'' @ a) \<noteq> None"
  using assms by (auto simp: markProcessed_def Let_def split: option.splits)

lemma say_fields:
  "redis_store (say l st) = redis_store st" "inMemoryProcessed (say l st) = inMemoryProcessed st"
  "sent (say l st) = sent st"
  by (simp_all add: say_def)

lemma wasProcessed_sent: "sent (snd (wasProcessed cfg w st a)) = sent st"
  by (simp add: wasProcessed_def Let_def say_def)

text \<open>
  C2, amended. A failed delivery does not hold the mark back. For a candidate that is
  not yet marked and passes the filter, when the Telegram post throws (and the ledger
  write does not): \<open>sendTelegramMessage\<close> logs the error and returns \<open>null\<close> where a
  post that went through returns the response data, and \<open>sendTelegramMarkdown\<close> logs
  the error and returns nothing; the callers do not look at a result: \<open>processToken\<close>
  still leaves the key in the ledger (its ledger is the one a successful post leads
  to) and \<open>processTokenEvent\<close> still writes it with the 24-hour expiry (likewise); the
  error line is in the log of the run, and no message has been delivered.
\<close>

theorem failed_delivery_still_marked:
  "(truthy_str (canonical_address token)
      \<and> \<not> fst (wasProcessed cfg w st (or_default (canonical_address token) []))
      \<and> passed cfg (resolve_metrics cfg w token)
      \<and> telegram_post w = PostThrew
      \<and> (redisClient cfg \<longrightarrow> \<not> redis_set_throws w)
    \<longrightarrow> (if redisClient cfg
         then redis_store (processToken cfg w st token)
                (''processed:'' @ or_default (canonical_address token) []) \<noteq> None
         else inMemoryProcessed (processToken cfg w st token)
                (''processed:'' @ or_default (canonical_address token) []) \<noteq> None)
        \<and> sent (processToken cfg w st token) = sent st
        \<and> redis_store (processToken cfg w st token)
            = redis_store (processToken cfg (w\<lparr>telegram_post := PostOk\<rparr>) st token)
        \<and> inMemoryProcessed (processToken cfg w st token)
            = inMemoryProcessed (processToken cfg (w\<lparr>telegram_post := PostOk\<rparr>) st token)
        \<and> (telegram_configured cfg
            \<longrightarrow> sendTelegramMessage cfg w st0 msg
                  = (ReturnedNull, say ''[ERROR] sendTelegramMessage failed'' st0)
              \<and> sendTelegramMessage cfg (w\<lparr>telegram_post := PostOk\<rparr>) st0 msg
                  = (ResponseData, st0\<lparr>sent := sent st0 @ [msg]\<rparr>)
              \<and> ''[ERROR] sendTelegramMessage failed'' \<in> set (logs (processToken cfg w st token))))
   \<and> (meta_reply sw = Some meta \<and> holders_reply sw = Some holdersRaw
      \<and> sum_balances (take 10 (holdersList_of holdersRaw)) = Some topSum
      \<and> totalSupplyBig_of meta \<noteq> 0
      \<and> passed_event (or_null_num (md_marketCap (market_reply sw)))
           (if holdersCount_of holdersRaw = 0 then of_nat (length (holdersList_of holdersRaw))
            else holdersCount_of holdersRaw)
           (percentBigInt topSum (totalSupplyBig_of meta))
           (devPercent_of creator (holdersList_of holdersRaw) (totalSupplyBig_of meta))
           (or_null_num (md_volume24h (market_reply sw)))
      \<and> post_reply sw = PostThrew \<and> \<not> set_throws sw
    \<longrightarrow> ledger (evaluateTokenEvent sw sst c a creator) (''processed:'' @ c @ '':'' @ a)
          = Some (60 * 60 * 24)
        \<and> alerts (evaluateTokenEvent sw sst c a creator) = alerts sst
        \<and> ledger (evaluateTokenEvent sw sst c a creator)
            = ledger (evaluateTokenEvent (sw\<lparr>post_reply := PostOk\<rparr>) sst c a creator)
        \<and> (telegram_ready sw
            \<longrightarrow> sendTelegramMarkdown sw al sst0 = tell ''Failed to send Telegram message:'' sst0
              \<and> ''Failed to send Telegram message:''
                  \<in> set (console (evaluateTokenEvent sw sst c a creator))))"
proof (rule conjI; rule impI)
  let ?a = "or_default (canonical_address token) []"
  let ?w' = "w\<lparr>telegram_post := PostOk\<rparr>"
  assume h: "truthy_str (canonical_address token)
      \<and> \<not> fst (wasProcessed cfg w st ?a)
      \<and> passed cfg (resolve_metrics cfg w token)
      \<and> telegram_post w = PostThrew
      \<and> (redisClient cfg \<longrightarrow> \<not> redis_set_throws w)"
  define st1 where "st1 = snd (wasProcessed cfg w st ?a)"
  define m where "m = resolve_metrics cfg w token"
  define st2 where "st2 = snd (sendTelegramMessage cfg w st1 (Message ?a m))"
  define st2' where "st2' = snd (sendTelegramMessage cfg ?w' st1 (Message ?a m))"
  have was: "wasProcessed cfg w st ?a = (False, st1)"
    using h by (simp add: st1_def prod_eq_iff)
  have run: "processToken cfg w st token
             = say ''[INFO] token matched filters and was reported:''
                 (snd (markProcessed cfg w st2 ?a))"
    using h was evaluateToken_passed [of cfg w token m st1 ?a]
    by (simp add: processToken_def Let_def m_def st2_def)
  have run': "processToken cfg ?w' st token
             = say ''[INFO] token matched filters and was reported:''
                 (snd (markProcessed cfg ?w' st2' ?a))"
    using h was evaluateToken_passed [of cfg ?w' token m st1 ?a]
    by (simp add: processToken_def Let_def m_def st2'_def wasProcessed_post resolve_metrics_post)
  have marked: "if redisClient cfg
         then redis_store (snd (markProcessed cfg w st2 ?a)) (''processed:'' @ ?a) \<noteq> None
         else inMemoryProcessed (snd (markProcessed cfg w st2 ?a)) (''processed:'' @ ?a) \<noteq> None"
    using h by (intro markProcessed_marks) simp
  have "sent st2 = sent st1" unfolding st2_def using h by (simp add: sendTelegramMessage_failed)
  then have unsent: "sent (snd (markProcessed cfg w st2 ?a)) = sent st"
    by (simp add: markProcessed_sent st1_def wasProcessed_sent)
  have same: "redis_store (snd (markProcessed cfg ?w' st2' ?a))
                = redis_store (snd (markProcessed cfg w st2 ?a))
            \<and> inMemoryProcessed (snd (markProcessed cfg ?w' st2' ?a))
                = inMemoryProcessed (snd (markProcessed cfg w st2 ?a))"
    by (rule markProcessed_ledger_cong) (simp_all add: st2_def st2'_def sendTelegramMessage_ledger)
  have logged: "telegram_configured cfg
            \<longrightarrow> sendTelegramMessage cfg w st0 msg
                  = (ReturnedNull, say ''[ERROR] sendTelegramMessage failed'' st0)
              \<and> sendTelegramMessage cfg ?w' st0 msg = (ResponseData, st0\<lparr>sent := sent st0 @ [msg]\<rparr>)
              \<and> ''[ERROR] sendTelegramMessage failed'' \<in> set (logs (processToken cfg w st token))"
  proof
    assume t: "telegram_configured cfg"
    have s: "sendTelegramMessage cfg w st0 msg
               = (ReturnedNull, say ''[ERROR] sendTelegramMessage failed'' st0)"
      using t h by (simp add: sendTelegramMessage_threw)
    have "st2 = say ''[ERROR] sendTelegramMessage failed'' st1"
      unfolding st2_def using t h by (simp add: sendTelegramMessage_threw)
    then have "''[ERROR] sendTelegramMessage failed'' \<in> set (logs st2)" by (simp add: logs_say)
    then have "''[ERROR] sendTelegramMessage failed'' \<in> set (logs (snd (markProcessed cfg w st2 ?a)))"
      using logs_markProcessed by blast
    then have "''[ERROR] sendTelegramMessage failed'' \<in> set (logs (processToken cfg w st token))"
      unfolding run by (simp add: logs_say)
    with s t show "sendTelegramMessage cfg w st0 msg
                  = (ReturnedNull, say ''[ERROR] sendTelegramMessage failed'' st0)
              \<and> sendTelegramMessage cfg ?w' st0 msg = (ResponseData, st0\<lparr>sent := sent st0 @ [msg]\<rparr>)
              \<and> ''[ERROR] sendTelegramMessage failed'' \<in> set (logs (processToken cfg w st token))"
      by (simp add: sendTelegramMessage_posted)
  qed
  have p1: "(if redisClient cfg
         then redis_store (processToken cfg w st token) (''processed:'' @ ?a) \<noteq> None
         else inMemoryProcessed (processToken cfg w st token) (''processed:'' @ ?a) \<noteq> None)
        \<and> sent (processToken cfg w st token) = sent st"
    unfolding run using marked unsent by (cases "redisClient cfg") (simp_all add: say_fields)
  have p2: "redis_store (processToken cfg w st token) = redis_store (processToken cfg ?w' st token)
        \<and> inMemoryProcessed (processToken cfg w st token)
            = inMemoryProcessed (processToken cfg ?w' st token)"
    unfolding run run' using same by (simp add: say_fields)
  from p1 p2 logged
  show "(if redisClient cfg
         then redis_store (processToken cfg w st token) (''processed:'' @ ?a) \<noteq> None
         else inMemoryProcessed (processToken cfg w st token) (''processed:'' @ ?a) \<noteq> None)
        \<and> sent (processToken cfg w st token) = sent st
        \<and> redis_store (processToken cfg w st token) = redis_store (processToken cfg ?w' st token)
        \<and> inMemoryProcessed (processToken cfg w st token)
            = inMemoryProcessed (processToken cfg ?w' st token)
        \<and> (telegram_configured cfg
            \<longrightarrow> sendTelegramMessage cfg w st0 msg
                  = (ReturnedNull, say ''[ERROR] sendTelegramMessage failed'' st0)
              \<and> sendTelegramMessage cfg ?w' st0 msg = (ResponseData, st0\<lparr>sent := sent st0 @ [msg]\<rparr>)
              \<and> ''[ERROR] sendTelegramMessage failed'' \<in> set (logs (processToken cfg w st token)))"
    by blast
next
  assume h: "meta_reply sw = Some meta \<and> holders_reply sw = Some holdersRaw
      \<and> sum_balances (take 10 (holdersList_of holdersRaw)) = Some topSum
      \<and> totalSupplyBig_of meta \<noteq> 0
      \<and> passed_event (or_null_num (md_marketCap (market_reply sw)))
           (if holdersCount_of holdersRaw = 0 then of_nat (length (holdersList_of holdersRaw))
            else holdersCount_of holdersRaw)
           (percentBigInt topSum (totalSupplyBig_of meta))
           (devPercent_of creator (holdersList_of holdersRaw) (totalSupplyBig_of meta))
           (or_null_num (md_volume24h (market_reply sw)))
      \<and> post_reply sw = PostThrew \<and> \<not> set_throws sw"
  then show "ledger (evaluateTokenEvent sw sst c a creator) (''processed:'' @ c @ '':'' @ a)
          = Some (60 * 60 * 24)
        \<and> alerts (evaluateTokenEvent sw sst c a creator) = alerts sst
        \<and> ledger (evaluateTokenEvent sw sst c a creator)
            = ledger (evaluateTokenEvent (sw\<lparr>post_reply := PostOk\<rparr>) sst c a creator)
        \<and> (telegram_ready sw
            \<longrightarrow> sendTelegramMarkdown sw al sst0 = tell ''Failed to send Telegram message:'' sst0
              \<and> ''Failed to send Telegram message:''
                  \<in> set (console (evaluateTokenEvent sw sst c a creator)))"
    by (simp add: evaluateTokenEvent_def Let_def mark_def tell_def sendTelegramMarkdown_def)
qed


lemma good_token_run:
  "processToken default_config (calm_world\<lparr>telegram_post := PostThrew\<rparr>) empty_bot good_token
   = \<lparr>redis_store = Map.empty, inMemoryProcessed = [''processed:Mint1'' \<mapsto> 1700000000000],
      sent = [],
      logs = [''[ERROR] sendTelegramMessage failed'',
              ''[INFO] token matched filters and was reported:'']\<rparr>"
proof -
  let ?w = "calm_world\<lparr>telegram_post := PostThrew\<rparr>"
  have was: "wasProcessed default_config ?w empty_bot ''Mint1'' = (False, empty_bot)"
    by (simp add: wasProcessed_def default_config_def empty_bot_def)
  have ev: "evaluateToken default_config ?w empty_bot good_token ''Mint1''
        = say ''[INFO] token matched filters and was reported:''
            (snd (markProcessed default_config ?w
               (snd (sendTelegramMessage default_config ?w empty_bot (Message ''Mint1'' good_metrics)))
               ''Mint1''))"
    by (rule evaluateToken_passed [OF resolve_good passed_good(1)])
  have "processToken default_config ?w empty_bot good_token
        = evaluateToken default_config ?w empty_bot good_token ''Mint1''"
    using was by (simp add: processToken_def address_good truthy_str_def or_default_def)
  then show ?thesis
    unfolding ev
    by (simp add: sendTelegramMessage_def markProcessed_def say_def default_config_def
        calm_world_def empty_bot_def)
qed

lemma mint_event_run:
  "processTokenEvent (passing_world\<lparr>post_reply := PostThrew\<rparr>) empty_scanner mint_event
   = \<lparr>ledger = [''processed:solana:m1'' \<mapsto> 86400], alerts = [],
      console = [''Failed to send Telegram message:'', ''Token passed and message sent for'']\<rparr>"
proof -
  let ?sw = "passing_world\<lparr>post_reply := PostThrew\<rparr>"
  have "processTokenEvent ?sw empty_scanner mint_event
        = evaluateTokenEvent ?sw empty_scanner ''solana'' ''m1'' None"
    by (simp add: processTokenEvent_def Let_def mint_fields truthy_str_def or_default_def
        lower_samples passing_world_def empty_scanner_def)
  also have "\<dots> = tell ''Token passed and message sent for''
             (mark ?sw ''processed:solana:m1'' 86400
                (sendTelegramMarkdown ?sw passing_alert empty_scanner))"
    by (rule passing_run) (simp_all add: passing_world_def)
  finally show ?thesis
    by (simp add: tell_def mark_def sendTelegramMarkdown_def passing_world_def empty_scanner_def)
qed

text \<open>
  C2, as the specification states it, fails: the sample token passes the filter, the
  post throws, nothing is delivered, and the processed mark is written all the same, by
  \<open>processToken\<close> and by \<open>processTokenEvent\<close>.
\<close>

theorem failed_delivery_counterexample:
  "passed default_config
      (resolve_metrics default_config (calm_world\<lparr>telegram_post := PostThrew\<rparr>) good_token)
   \<and> telegram_post (calm_world\<lparr>telegram_post := PostThrew\<rparr>) = PostThrew
   \<and> sent (processToken default_config (calm_world\<lparr>telegram_post := PostThrew\<rparr>) empty_bot
            good_token) = []
   \<and> inMemoryProcessed
        (processToken default_config (calm_world\<lparr>telegram_post := PostThrew\<rparr>) empty_bot
            good_token) ''processed:Mint1'' = Some 1700000000000
   \<and> alerts (processTokenEvent (passing_world\<lparr>post_reply := PostThrew\<rparr>) empty_scanner
            mint_event) = []
   \<and> ledger (processTokenEvent (passing_world\<lparr>post_reply := PostThrew\<rparr>) empty_scanner
            mint_event) ''processed:solana:m1'' = Some 86400"
  by (simp add: good_token_run mint_event_run resolve_good passed_good)


lemma passing_filter:
  "passed_event (or_null_num (md_marketCap (market_reply passing_world)))
     (if holdersCount_of (HoldersObject 50 [\<lparr>h_address = Some ''w1'', h_balance = Some ''20''\<rparr>]) = 0
      then of_nat (length (holdersList_of
             (HoldersObject 50 [\<lparr>h_address = Some ''w1'', h_balance = Some ''20''\<rparr>])))
      else holdersCount_of (HoldersObject 50 [\<lparr>h_address = Some ''w1'', h_balance = Some ''20''\<rparr>]))
     (percentBigInt 20 1000)
     (devPercent_of None
        (holdersList_of (HoldersObject 50 [\<lparr>h_address = Some ''w1'', h_balance = Some ''20''\<rparr>]))
        1000)
     (or_null_num (md_volume24h (market_reply passing_world)))"
  by (simp add: passed_event_def or_null_num_def truthy_num_def passing_world_def
      percent_20_1000 devPercent_of_def truthy_str_def share_of_def balance_20)

theorem failed_delivery_still_marked_witness:
  "truthy_str (canonical_address good_token)
   \<and> \<not> fst (wasProcessed default_config (calm_world\<lparr>telegram_post := PostThrew\<rparr>) empty_bot
              (or_default (canonical_address good_token) []))
   \<and> passed default_config
        (resolve_metrics default_config (calm_world\<lparr>telegram_post := PostThrew\<rparr>) good_token)
   \<and> telegram_post (calm_world\<lparr>telegram_post := PostThrew\<rparr>) = PostThrew
   \<and> \<not> redisClient default_config
   \<and> inMemoryProcessed
        (processToken default_config (calm_world\<lparr>telegram_post := PostThrew\<rparr>) empty_bot good_token)
        ''processed:Mint1'' \<noteq> None
   \<and> sent (processToken default_config (calm_world\<lparr>telegram_post := PostThrew\<rparr>) empty_bot
            good_token) = sent empty_bot
   \<and> telegram_configured default_config
   \<and> fst (sendTelegramMessage default_config (calm_world\<lparr>telegram_post := PostThrew\<rparr>) empty_bot
            (Message ''Mint1'' good_metrics)) = ReturnedNull
   \<and> ''[ERROR] sendTelegramMessage failed''
        \<in> set (logs (processToken default_config (calm_world\<lparr>telegram_post := PostThrew\<rparr>)
                      empty_bot good_token))
   \<and> telegram_ready (passing_world\<lparr>post_reply := PostThrew\<rparr>)
   \<and> ''Failed to send Telegram message:''
        \<in> set (console (evaluateTokenEvent (passing_world\<lparr>post_reply := PostThrew\<rparr>)
                         empty_scanner ''solana'' ''m1'' None))
   \<and> meta_reply (passing_world\<lparr>post_reply := PostThrew\<rparr>) = Some \<lparr>totalSupply = Some ''1000''\<rparr>
   \<and> totalSupplyBig_of \<lparr>totalSupply = Some ''1000''\<rparr> \<noteq> 0
   \<and> post_reply (passing_world\<lparr>post_reply := PostThrew\<rparr>) = PostThrew
   \<and> \<not> set_throws (passing_world\<lparr>post_reply := PostThrew\<rparr>)
   \<and> ledger (evaluateTokenEvent (passing_world\<lparr>post_reply := PostThrew\<rparr>) empty_scanner
              ''solana'' ''m1'' None) ''processed:solana:m1'' = Some 86400
   \<and> alerts (evaluateTokenEvent (passing_world\<lparr>post_reply := PostThrew\<rparr>) empty_scanner
              ''solana'' ''m1'' None) = alerts empty_scanner"
proof -
  let ?w = "calm_world\<lparr>telegram_post := PostThrew\<rparr>"
  let ?sw = "passing_world\<lparr>post_reply := PostThrew\<rparr>"
  let ?raw = "HoldersObject 50 [\<lparr>h_address = Some ''w1'', h_balance = Some ''20''\<rparr>]"
  have h1: "truthy_str (canonical_address good_token)"
    by (simp add: address_good truthy_str_def)
  have h2: "\<not> fst (wasProcessed default_config ?w empty_bot
              (or_default (canonical_address good_token) []))"
    by (simp add: wasProcessed_def default_config_def empty_bot_def)
  have h3: "passed default_config (resolve_metrics default_config ?w good_token)"
    by (simp add: resolve_good passed_good)
  have h4: "telegram_post ?w = PostThrew" by simp
  have h5: "redisClient default_config \<longrightarrow> \<not> redis_set_throws ?w"
    by (simp add: default_config_def)
  have k1: "meta_reply ?sw = Some \<lparr>totalSupply = Some ''1000''\<rparr>"
    and k2: "holders_reply ?sw = Some ?raw"
    and k6: "post_reply ?sw = PostThrew" and k7: "\<not> set_throws ?sw"
    and k8: "market_reply ?sw = market_reply passing_world"
    by (simp_all add: passing_world_def)
  have k3: "sum_balances (take 10 (holdersList_of ?raw)) = Some 20"
    by (simp add: balance_20)
  have k4: "totalSupplyBig_of \<lparr>totalSupply = Some ''1000''\<rparr> \<noteq> 0"
    by (simp add: supply_1000)
  have k5: "passed_event (or_null_num (md_marketCap (market_reply ?sw)))
     (if holdersCount_of ?raw = 0 then of_nat (length (holdersList_of ?raw))
      else holdersCount_of ?raw)
     (percentBigInt 20 (totalSupplyBig_of \<lparr>totalSupply = Some ''1000''\<rparr>))
     (devPercent_of None (holdersList_of ?raw) (totalSupplyBig_of \<lparr>totalSupply = Some ''1000''\<rparr>))
     (or_null_num (md_volume24h (market_reply ?sw)))"
    unfolding k8 supply_1000 by (rule passing_filter)
  have tc: "telegram_configured default_config" by (simp add: default_config_def)
  have tr: "telegram_ready ?sw" by (simp add: passing_world_def)
  have t1: "(if redisClient default_config
         then redis_store (processToken default_config ?w empty_bot good_token)
                (''processed:'' @ or_default (canonical_address good_token) []) \<noteq> None
         else inMemoryProcessed (processToken default_config ?w empty_bot good_token)
                (''processed:'' @ or_default (canonical_address good_token) []) \<noteq> None)
        \<and> sent (processToken default_config ?w empty_bot good_token) = sent empty_bot
        \<and> sendTelegramMessage default_config ?w empty_bot (Message ''Mint1'' good_metrics)
            = (ReturnedNull, say ''[ERROR] sendTelegramMessage failed'' empty_bot)
        \<and> ''[ERROR] sendTelegramMessage failed''
            \<in> set (logs (processToken default_config ?w empty_bot good_token))"
    using failed_delivery_still_marked [where token = good_token and cfg = default_config
        and w = ?w and st = empty_bot and ?st0.0 = empty_bot
        and msg = "Message ''Mint1'' good_metrics"]
      h1 h2 h3 h4 h5 tc by blast
  have t2: "ledger (evaluateTokenEvent ?sw empty_scanner ''solana'' ''m1'' None)
              (''processed:'' @ ''solana'' @ '':'' @ ''m1'') = Some (60 * 60 * 24)
        \<and> alerts (evaluateTokenEvent ?sw empty_scanner ''solana'' ''m1'' None) = alerts empty_scanner
        \<and> ''Failed to send Telegram message:''
            \<in> set (console (evaluateTokenEvent ?sw empty_scanner ''solana'' ''m1'' None))"
    using failed_delivery_still_marked [where sw = ?sw
        and meta = "\<lparr>totalSupply = Some ''1000''\<rparr>" and holdersRaw = ?raw and topSum = 20
        and creator = None and sst = empty_scanner and c = "''solana''" and a = "''m1''"]
      k1 k2 k3 k4 k5 k6 k7 tr by blast
  have nr: "\<not> redisClient default_config" by (simp add: default_config_def)
  from t1 nr have t1': "inMemoryProcessed (processToken default_config ?w empty_bot good_token)
        ''processed:Mint1'' \<noteq> None
      \<and> sent (processToken default_config ?w empty_bot good_token) = sent empty_bot
      \<and> fst (sendTelegramMessage default_config ?w empty_bot (Message ''Mint1'' good_metrics))
          = ReturnedNull
      \<and> ''[ERROR] sendTelegramMessage failed''
          \<in> set (logs (processToken default_config ?w empty_bot good_token))"
    by (simp add: address_good or_default_def)
  from t2 have t2': "ledger (evaluateTokenEvent ?sw empty_scanner ''solana'' ''m1'' None)
              ''processed:solana:m1'' = Some 86400
        \<and> alerts (evaluateTokenEvent ?sw empty_scanner ''solana'' ''m1'' None) = alerts empty_scanner
        \<and> ''Failed to send Telegram message:''
            \<in> set (console (evaluateTokenEvent ?sw empty_scanner ''solana'' ''m1'' None))"
    by simp
  from h1 h2 h3 h4 nr k1 k4 k6 k7 t1' t2' tc tr show ?thesis by blast
qed

section \<open>The filters\<close>

text \<open>
  C4, as the specification states it, fails: \<open>processToken\<close> lets metrics pass whose
  volume is present but zero, which is not within the volume threshold of the
  specification's filter (and no metric is missing).
\<close>

theorem filter_zero_volume_counterexample:
  "passed default_config idle_metrics \<and> \<not> fst (evaluate_spec default_config idle_metrics)
   \<and> snd (evaluate_spec default_config idle_metrics) = {}"
  by (simp add: passed_def evaluate_spec_def default_config_def idle_metrics_def)

lemma evaluateToken_rejected:
  assumes "\<not> passed cfg (resolve_metrics cfg w token)"
  shows "sent (evaluateToken cfg w st token a) = sent st"
    and "logs (evaluateToken cfg w st token a) \<noteq> []"
    and "last (logs (evaluateToken cfg w st token a)) = ''[INFO] token did not match filters:''"
  using assms
  by (simp_all add: evaluateToken_def Let_def say_fields markProcessed_sent logs_say)

text \<open>
  C4, amended. In \<open>processToken\<close> the filter passes exactly when marketcap, holders,
  top-10 share and developer share are present and within their thresholds and the
  volume is present; any absent metric makes it fail, and a candidate that fails is not
  sent: the run ends by logging that the token did not match. The outcome is a truth
  value; no set of missing metric names is built. In the fixed-threshold poller a
  missing volume fails the filter.
\<close>

theorem passed_iff_present_and_within:
  "(passed cfg m \<longleftrightarrow>
      (\<exists>mc h t d v. marketcap m = Some mc \<and> holders m = Some h \<and> top10Percent m = Some t
          \<and> devPercent m = Some d \<and> volume24h m = Some v
          \<and> MIN_MARKETCAP cfg \<le> mc \<and> MIN_HOLDERS cfg \<le> h
          \<and> t < MAX_TOP10_PERCENT cfg \<and> d < MAX_DEV_PERCENT cfg))
   \<and> (marketcap m = None \<or> holders m = None \<or> top10Percent m = None \<or> devPercent m = None
        \<or> volume24h m = None \<longrightarrow> \<not> passed cfg m)
   \<and> (\<not> passed cfg (resolve_metrics cfg w token)
        \<longrightarrow> sent (evaluateToken cfg w st token a) = sent st
          \<and> logs (evaluateToken cfg w st token a) \<noteq> []
          \<and> last (logs (evaluateToken cfg w st token a)) = ''[INFO] token did not match filters:'')
   \<and> (feed_volume_24h ft = Undefined \<or> feed_volume_24h ft = Null \<longrightarrow> \<not> passes_filters ft)"
proof -
  have a: "passed cfg m \<longleftrightarrow>
      (\<exists>mc h t d v. marketcap m = Some mc \<and> holders m = Some h \<and> top10Percent m = Some t
          \<and> devPercent m = Some d \<and> volume24h m = Some v
          \<and> MIN_MARKETCAP cfg \<le> mc \<and> MIN_HOLDERS cfg \<le> h
          \<and> t < MAX_TOP10_PERCENT cfg \<and> d < MAX_DEV_PERCENT cfg)"
    by (auto simp: passed_def split: option.splits)
  have b: "marketcap m = None \<or> holders m = None \<or> top10Percent m = None \<or> devPercent m = None
        \<or> volume24h m = None \<longrightarrow> \<not> passed cfg m"
    by (auto simp: passed_def)
  have c: "\<not> passed cfg (resolve_metrics cfg w token)
        \<longrightarrow> sent (evaluateToken cfg w st token a) = sent st
          \<and> logs (evaluateToken cfg w st token a) \<noteq> []
          \<and> last (logs (evaluateToken cfg w st token a)) = ''[INFO] token did not match filters:''"
    using evaluateToken_rejected [of cfg w token st a] by blast
  have d: "feed_volume_24h ft = Undefined \<or> feed_volume_24h ft = Null \<longrightarrow> \<not> passes_filters ft"
    by (auto simp: passes_filters_def)
  from a b c d show ?thesis by blast
qed

lemma resolve_no_marketcap:
  "resolve_metrics default_config w (good_token\<lparr>tok_marketcap := Undefined\<rparr>)
   = good_metrics\<lparr>marketcap := None\<rparr>"
  by (simp add: resolve_metrics_def default_config_def good_token_def good_metrics_def)

theorem passed_iff_present_and_within_witness:
  "passed default_config good_metrics
   \<and> marketcap (good_metrics\<lparr>marketcap := None\<rparr>) = None
   \<and> \<not> passed default_config (good_metrics\<lparr>marketcap := None\<rparr>)
   \<and> \<not> passed default_config
          (resolve_metrics default_config calm_world (good_token\<lparr>tok_marketcap := Undefined\<rparr>))
   \<and> sent (evaluateToken default_config calm_world empty_bot
             (good_token\<lparr>tok_marketcap := Undefined\<rparr>) ''Mint1'') = sent empty_bot
   \<and> last (logs (evaluateToken default_config calm_world empty_bot
             (good_token\<lparr>tok_marketcap := Undefined\<rparr>) ''Mint1''))
       = ''[INFO] token did not match filters:''
   \<and> feed_volume_24h (busy_feed_token\<lparr>feed_volume_24h := Undefined\<rparr>) = Undefined
   \<and> \<not> passes_filters (busy_feed_token\<lparr>feed_volume_24h := Undefined\<rparr>)"
proof -
  let ?t = "good_token\<lparr>tok_marketcap := Undefined\<rparr>"
  let ?f = "busy_feed_token\<lparr>feed_volume_24h := Undefined\<rparr>"
  have n: "marketcap (good_metrics\<lparr>marketcap := None\<rparr>) = None" by simp
  have u: "feed_volume_24h ?f = Undefined" by simp
  have np: "\<not> passed default_config (good_metrics\<lparr>marketcap := None\<rparr>)"
    using passed_iff_present_and_within [of default_config "good_metrics\<lparr>marketcap := None\<rparr>"] n
    by blast
  then have np2: "\<not> passed default_config (resolve_metrics default_config calm_world ?t)"
    by (simp add: resolve_no_marketcap)
  have s: "sent (evaluateToken default_config calm_world empty_bot ?t ''Mint1'') = sent empty_bot
      \<and> last (logs (evaluateToken default_config calm_world empty_bot ?t ''Mint1''))
          = ''[INFO] token did not match filters:''"
    using passed_iff_present_and_within [of default_config good_metrics calm_world ?t
        empty_bot "''Mint1''"] np2
    by blast
  have f: "\<not> passes_filters ?f"
    using passed_iff_present_and_within [of default_config good_metrics calm_world ?t
        empty_bot "''Mint1''" ?f] u
    by blast
  from passed_good(1) n np np2 s u f show ?thesis by blast
qed

text \<open>
  The fixed-threshold poller compares a missing field with \<open><\<close> and \<open>>\<close>, which is
  false for \<open>undefined\<close>: a token without a marketcap field is not rejected there.
\<close>

lemma pollOnce_missing_marketcap:
  "passes_filters (busy_feed_token\<lparr>feed_marketcap := Undefined\<rparr>)"
  by (simp add: passes_filters_def busy_feed_token_def idle_feed_token_def js_lt_def js_gt_def
      js_le_def)

lemma resolve_scenario_B:
  "resolve_metrics default_config w scenario_B = good_metrics\<lparr>volume24h := Some 0\<rparr>"
  by (simp add: resolve_metrics_def default_config_def scenario_B_def good_token_def
      good_metrics_def truthy_num_def)

lemma passed_scenario_B: "passed default_config (good_metrics\<lparr>volume24h := Some 0\<rparr>)"
  by (simp add: passed_def default_config_def good_metrics_def)

text \<open>
  C5, as the specification states it, fails for \<open>processToken\<close>: scenario B, with a
  volume of zero and every other metric within its threshold, passes and is sent.
\<close>

theorem zero_volume_passes_counterexample:
  "volume24h (resolve_metrics default_config calm_world scenario_B) = Some 0
   \<and> passed default_config (resolve_metrics default_config calm_world scenario_B)
   \<and> sent (processToken default_config calm_world empty_bot scenario_B)
       = [Message ''Mint1'' (good_metrics\<lparr>volume24h := Some 0\<rparr>)]"
proof -
  have was: "wasProcessed default_config calm_world empty_bot ''Mint1'' = (False, empty_bot)"
    by (simp add: wasProcessed_def default_config_def empty_bot_def)
  have addr: "canonical_address scenario_B = Some ''Mint1''"
    by (simp add: canonical_address_def scenario_B_def good_token_def or_str_def truthy_str_def)
  have "processToken default_config calm_world empty_bot scenario_B
        = evaluateToken default_config calm_world empty_bot scenario_B ''Mint1''"
    using was by (simp add: processToken_def addr truthy_str_def or_default_def)
  also have "\<dots> = say ''[INFO] token matched filters and was reported:''
            (snd (markProcessed default_config calm_world
               (snd (sendTelegramMessage default_config calm_world empty_bot
                  (Message ''Mint1'' (good_metrics\<lparr>volume24h := Some 0\<rparr>))))
               ''Mint1''))"
    by (rule evaluateToken_passed [OF resolve_scenario_B passed_scenario_B])
  finally have "sent (processToken default_config calm_world empty_bot scenario_B)
       = [Message ''Mint1'' (good_metrics\<lparr>volume24h := Some 0\<rparr>)]"
    by (simp add: say_fields markProcessed_sent sendTelegramMessage_def default_config_def
        calm_world_def empty_bot_def)
  then show ?thesis by (simp add: resolve_scenario_B passed_scenario_B)
qed

text \<open>
  C5, amended. A 24-hour volume of zero fails the filter of the fixed-threshold poller
  (the token is not dispatched) and the filter of \<open>processTokenEvent\<close>; in
  \<open>processToken\<close> the volume only has to be visible, so a zero passes exactly when the
  same metrics with any other volume pass.
\<close>

theorem zero_volume_by_program:
  "(feed_volume_24h ft = Num 0
      \<longrightarrow> \<not> passes_filters ft \<and> fst (poll_token pw i pst ft) \<noteq> Dispatched)
   \<and> (md_volume24h market = Some 0
      \<longrightarrow> \<not> passed_event marketCap holdersCount top10 dev (or_null_num (md_volume24h market))
        \<and> \<not> passed_event marketCap holdersCount top10 dev (md_volume24h market))
   \<and> (volume24h m = Some v
      \<longrightarrow> passed cfg (m\<lparr>volume24h := Some 0\<rparr>) = passed cfg m)"
proof -
  have a: "feed_volume_24h ft = Num 0
      \<longrightarrow> \<not> passes_filters ft \<and> fst (poll_token pw i pst ft) \<noteq> Dispatched"
    by (simp add: passes_filters_def poll_token_def Let_def split: option.splits)
  have b: "md_volume24h market = Some 0
      \<longrightarrow> \<not> passed_event marketCap holdersCount top10 dev (or_null_num (md_volume24h market))
        \<and> \<not> passed_event marketCap holdersCount top10 dev (md_volume24h market)"
    by (simp add: passed_event_def or_null_num_def truthy_num_def)
  have c: "volume24h m = Some v \<longrightarrow> passed cfg (m\<lparr>volume24h := Some 0\<rparr>) = passed cfg m"
    by (simp add: passed_def)
  from a b c show ?thesis by blast
qed

theorem zero_volume_by_program_witness:
  "feed_volume_24h idle_feed_token = Num 0
   \<and> \<not> passes_filters idle_feed_token
   \<and> passes_filters (idle_feed_token\<lparr>feed_volume_24h := Num 500\<rparr>)
   \<and> fst (poll_token calm_poll 0 fresh_poll idle_feed_token) = Filtered
   \<and> md_volume24h \<lparr>md_marketCap = Some 20000, md_volume24h = Some 0\<rparr> = Some 0
   \<and> \<not> passed_event (Some 20000) 50 (Finite 15) (Finite 1) (or_null_num (Some 0))
   \<and> passed_event (Some 20000) 50 (Finite 15) (Finite 1) (or_null_num (Some 500))
   \<and> volume24h good_metrics = Some 500
   \<and> passed default_config (good_metrics\<lparr>volume24h := Some 0\<rparr>)"
proof -
  have h1: "feed_volume_24h idle_feed_token = Num 0" by (simp add: idle_feed_token_def)
  have h3: "volume24h good_metrics = Some 500" by (simp add: good_metrics_def)
  have p1: "passes_filters (idle_feed_token\<lparr>feed_volume_24h := Num 500\<rparr>)"
    by (simp add: passes_filters_def idle_feed_token_def js_lt_def js_gt_def js_le_def)
  have p2: "passed_event (Some 20000) 50 (Finite 15) (Finite 1) (or_null_num (Some 500))"
    by (simp add: passed_event_def or_null_num_def truthy_num_def)
  have f: "fst (poll_token calm_poll 0 fresh_poll idle_feed_token) \<noteq> Dispatched
           \<Longrightarrow> fst (poll_token calm_poll 0 fresh_poll idle_feed_token) = Filtered"
    by (simp add: poll_token_def Let_def fresh_poll_def ledger_get_def ledger_set_def
        split: if_splits)
  show ?thesis
    using zero_volume_by_program [of idle_feed_token calm_poll 0 fresh_poll
        "\<lparr>md_marketCap = Some 20000, md_volume24h = Some 0\<rparr>"
        "Some 20000" 50 "Finite 15" "Finite 1" good_metrics 500 default_config]
      h1 h3 p1 p2 f passed_good(1)
    by simp
qed

end
